theory Spec2Isabelle
  imports Complex_Main
begin

section \<open>PyFHD observation builder: \<open>src/PyFHD/data_setup/obs.py\<close>\<close>

text \<open>
  A shallow embedding of \<open>create_obs\<close>, \<open>read_metafits\<close> and
  \<open>project_slant_orthographic\<close>. Python dictionaries with fixed keys are records,
  every raise of the source is a value of type \<open>exn\<close> on the left of a sum, the
  logger is a list of entries that is passed in and returned, and the helpers imported
  from \<open>PyFHD.pyfhd_tools\<close> and astropy (which are not part of the sources at hand)
  are fields of the record \<open>externals\<close>.

  Floating-point numbers are modelled without rounding and without overflow: a Python
  \<open>float\<close> is a real number, and a numpy \<open>float64\<close> is a real number or one
  of the three non-finite values that numpy produces instead of raising. The exception
  is line 117, where the quotient of two logarithms is truncated and its rounding decides
  the result: there the float64 logarithm and quotient are fields of \<open>externals\<close>.
\<close>

subsection \<open>Exceptions and log entries\<close>

datatype exn = TypeError | ValueError | ZeroDivisionError | OverflowError | IndexError | SystemExit

text \<open>A numpy float64, and a number that is either a Python/numpy integer or a float64.\<close>

datatype npfloat = Finite real | PosInf | NegInf | NaN

datatype pynum = PyInt int | NpFloat npfloat

datatype log_msg =
    MismatchedTiles pynum pynum
  | AllTilesFlagged
  | MetafitsNotFound

datatype log_entry = Warning log_msg | Error log_msg

type_synonym logger = "log_entry list"

subsection \<open>numpy scalars\<close>

text \<open>\<open>np.log\<close>: \<open>-inf\<close> at zero and \<open>nan\<close> below it (numpy warns, it does not raise).\<close>

fun np_log :: "npfloat \<Rightarrow> npfloat" where
  "np_log (Finite x) = (if 0 < x then Finite (ln x) else if x = 0 then NegInf else NaN)"
| "np_log PosInf = PosInf"
| "np_log NegInf = NaN"
| "np_log NaN = NaN"

text \<open>True division of float64 values; a zero divisor is the positive zero.\<close>

fun np_div :: "npfloat \<Rightarrow> npfloat \<Rightarrow> npfloat" where
  "np_div NaN y = NaN"
| "np_div (Finite a) (Finite b) =
     (if b \<noteq> 0 then Finite (a / b)
      else if 0 < a then PosInf else if a < 0 then NegInf else NaN)"
| "np_div (Finite a) PosInf = Finite 0"
| "np_div (Finite a) NegInf = Finite 0"
| "np_div (Finite a) NaN = NaN"
| "np_div PosInf (Finite b) = (if 0 \<le> b then PosInf else NegInf)"
| "np_div NegInf (Finite b) = (if 0 \<le> b then NegInf else PosInf)"
| "np_div PosInf PosInf = NaN"
| "np_div PosInf NegInf = NaN"
| "np_div PosInf NaN = NaN"
| "np_div NegInf PosInf = NaN"
| "np_div NegInf NegInf = NaN"
| "np_div NegInf NaN = NaN"

text \<open>\<open>np.floor\<close> rounds down, \<open>np.fix\<close> rounds towards zero; both keep non-finite values.\<close>

fun np_floor :: "npfloat \<Rightarrow> npfloat" where
  "np_floor (Finite x) = Finite (of_int \<lfloor>x\<rfloor>)"
| "np_floor PosInf = PosInf"
| "np_floor NegInf = NegInf"
| "np_floor NaN = NaN"

fun np_fix :: "npfloat \<Rightarrow> npfloat" where
  "np_fix (Finite x) = Finite (if 0 \<le> x then of_int \<lfloor>x\<rfloor> else of_int \<lceil>x\<rceil>)"
| "np_fix PosInf = PosInf"
| "np_fix NegInf = NegInf"
| "np_fix NaN = NaN"

text \<open>\<open>2 ** x\<close> for a float64 exponent.\<close>

fun np_power2 :: "npfloat \<Rightarrow> npfloat" where
  "np_power2 (Finite x) = Finite (2 powr x)"
| "np_power2 PosInf = PosInf"
| "np_power2 NegInf = Finite 0"
| "np_power2 NaN = NaN"

text \<open>\<open>x % m\<close> for a finite \<open>x\<close>: the result has the sign of the divisor, and is
  \<open>nan\<close> for a zero divisor.\<close>

fun np_mod :: "real \<Rightarrow> npfloat \<Rightarrow> npfloat" where
  "np_mod x (Finite m) = (if m = 0 then NaN else Finite (x - m * of_int \<lfloor>x / m\<rfloor>))"
| "np_mod x PosInf = (if 0 \<le> x then Finite x else PosInf)"
| "np_mod x NegInf = (if x \<le> 0 then Finite x else NegInf)"
| "np_mod x NaN = NaN"

text \<open>Comparisons: every comparison with \<open>nan\<close> is false, except \<open>!=\<close>.\<close>

fun np_less :: "npfloat \<Rightarrow> npfloat \<Rightarrow> bool" where
  "np_less (Finite a) (Finite b) = (a < b)"
| "np_less (Finite a) PosInf = True"
| "np_less NegInf (Finite b) = True"
| "np_less NegInf PosInf = True"
| "np_less x y = False"

fun np_eq :: "npfloat \<Rightarrow> npfloat \<Rightarrow> bool" where
  "np_eq NaN y = False"
| "np_eq x NaN = False"
| "np_eq x y = (x = y)"

fun to_np :: "pynum \<Rightarrow> npfloat" where
  "to_np (PyInt n) = Finite (of_int n)"
| "to_np (NpFloat f) = f"

definition py_less :: "pynum \<Rightarrow> pynum \<Rightarrow> bool" where
  "py_less a b = np_less (to_np a) (to_np b)"

definition py_neq :: "pynum \<Rightarrow> pynum \<Rightarrow> bool" where
  "py_neq a b = (\<not> np_eq (to_np a) (to_np b))"

text \<open>Python's builtin \<open>max(a, b)\<close> keeps \<open>a\<close> unless \<open>b > a\<close>.\<close>

definition py_max :: "pynum \<Rightarrow> pynum \<Rightarrow> pynum" where
  "py_max a b = (if py_less a b then b else a)"

fun py_succ :: "pynum \<Rightarrow> pynum" where
  "py_succ (PyInt n) = PyInt (n + 1)"
| "py_succ (NpFloat (Finite x)) = NpFloat (Finite (x + 1))"
| "py_succ (NpFloat f) = NpFloat f"

subsection \<open>numpy arrays\<close>

text \<open>A one-dimensional array of integers or of float64 values.\<close>

datatype nparray = IntArr "int list" | FloatArr "npfloat list"

text \<open>\<open>np.maximum\<close> of two float64 values propagates \<open>nan\<close>.\<close>

definition np_maximum :: "npfloat \<Rightarrow> npfloat \<Rightarrow> npfloat" where
  "np_maximum a b = (if a = NaN then NaN else if b = NaN then NaN else if np_less a b then b else a)"

text \<open>\<open>np.max\<close> and \<open>np.min\<close> raise ValueError on an empty array.\<close>

fun np_max :: "nparray \<Rightarrow> exn + pynum" where
  "np_max (IntArr []) = Inl ValueError"
| "np_max (IntArr (x # xs)) = Inr (PyInt (foldl max x xs))"
| "np_max (FloatArr []) = Inl ValueError"
| "np_max (FloatArr (x # xs)) = Inr (NpFloat (foldl np_maximum x xs))"

fun max_real :: "real list \<Rightarrow> exn + real" where
  "max_real [] = Inl ValueError"
| "max_real (x # xs) = Inr (foldl max x xs)"

fun min_real :: "real list \<Rightarrow> exn + real" where
  "min_real [] = Inl ValueError"
| "min_real (x # xs) = Inr (foldl min x xs)"

subsection \<open>The inputs of \<open>create_obs\<close>\<close>

text \<open>\<open>pyfhd_header\<close>: the fields of the UVFITS header that the three functions read.\<close>

record header =
  hdr_n_pol :: int
  hdr_n_tile :: int
  hdr_n_freq :: int
  hdr_freq_res :: real
  hdr_frequency_array :: "real list"
  hdr_obsra :: real
  hdr_obsdec :: real
  hdr_lat :: real
  hdr_lon :: real
  hdr_alt :: real

text \<open>\<open>params\<close>: the per-visibility columns. The antenna columns are integer arrays in
  the file and are overwritten by float64 arrays when the baselines are decoded.\<close>

record params =
  par_time :: "real list"
  par_baseline_arr :: "real list"
  par_antenna1 :: nparray
  par_antenna2 :: nparray
  par_uu :: "real list"
  par_vv :: "real list"

text \<open>\<open>pyfhd_config\<close>: an option that is \<open>None\<close> in Python is \<open>None\<close> here.\<close>

record config =
  cfg_instrument :: string
  cfg_beam_nfreq_avg :: "int option"
  cfg_FoV :: "real option"
  cfg_kbinsize :: "real option"
  cfg_dimension :: "int option"
  cfg_elements :: "int option"
  cfg_min_baseline :: "real option"
  cfg_run_simulation :: bool
  cfg_input_path :: string
  cfg_obs_id :: string

subsection \<open>\<open>create_obs\<close>, lines 74 to 96: the antennas of each baseline\<close>

text \<open>Line 75, \<open>np.max(params['antenna1']) > 0 and (np.max(params['antenna2']) > 0)\<close>;
  the second maximum is not taken when the first comparison is false.\<close>

definition antenna_columns_valid :: "params \<Rightarrow> exn + bool" where
  "antenna_columns_valid p =
     (case np_max (par_antenna1 p) of
        Inl e \<Rightarrow> Inl e
      | Inr m1 \<Rightarrow>
          if py_less (PyInt 0) m1
          then (case np_max (par_antenna2 p) of
                  Inl e \<Rightarrow> Inl e
                | Inr m2 \<Rightarrow> Inr (py_less (PyInt 0) m2))
          else Inr False)"

text \<open>Lines 83 to 89: the modulus of the packed baseline index, from the smallest index.\<close>

definition antenna_mod_index :: "real \<Rightarrow> npfloat" where
  "antenna_mod_index baseline_min =
     (let exponent = np_div (np_log (Finite baseline_min)) (np_log (Finite 2));
          ami = np_power2 (np_floor exponent);
          tile_B_test = np_mod baseline_min ami
      in if np_less (Finite 1) tile_B_test \<and> np_eq (np_mod baseline_min (Finite 2)) (Finite 1)
         then np_div ami (np_power2 (np_floor (np_div (np_log tile_B_test) (np_log (Finite 2)))))
         else ami)"

text \<open>What lines 74 to 96 leave behind: the two entries of \<open>baseline_info\<close>,
  \<open>obs['n_tile']\<close>, the (possibly overwritten) \<open>params\<close> and the local
  \<open>antenna_flag\<close>.\<close>

record tiles =
  tile_A :: nparray
  tile_B :: nparray
  tl_n_tile :: pynum
  tl_params :: params
  antenna_flag :: bool

text \<open>Lines 80 to 96, the branch under \<open>if antenna_flag\<close>.\<close>

definition packed_tiles :: "int \<Rightarrow> params \<Rightarrow> logger \<Rightarrow> logger \<times> (exn + tiles)" where
  "packed_tiles n_tile p lg =
     (case min_real (par_baseline_arr p) of
        Inl e \<Rightarrow> (lg, Inl e)
      | Inr baseline_min \<Rightarrow>
          let ami = antenna_mod_index baseline_min;
              tA = map (\<lambda>b. np_floor (np_div (Finite b) ami)) (par_baseline_arr p);
              tB = map (\<lambda>b. np_fix (np_div (Finite b) ami)) (par_baseline_arr p)
          in (case np_max (FloatArr tA) of
                Inl e \<Rightarrow> (lg, Inl e)
              | Inr mA \<Rightarrow>
                 (case np_max (FloatArr tB) of
                    Inl e \<Rightarrow> (lg, Inl e)
                  | Inr mB \<Rightarrow>
                      let data = py_max mA mB;
                          mismatch = py_neq data (PyInt n_tile);
                          p' = p\<lparr>par_antenna1 := FloatArr tA, par_antenna2 := FloatArr tB\<rparr>
                      in (if mismatch then lg @ [Warning (MismatchedTiles (PyInt n_tile) data)] else lg,
                          Inr \<lparr>tile_A = FloatArr tA, tile_B = FloatArr tB,
                               tl_n_tile = (if mismatch then data else PyInt n_tile),
                               tl_params = p', antenna_flag = True\<rparr>))))"

text \<open>Lines 74 to 96 as a whole; \<open>n_tile\<close> is the header's value (line 38).\<close>

definition resolve_tiles :: "int \<Rightarrow> params \<Rightarrow> logger \<Rightarrow> logger \<times> (exn + tiles)" where
  "resolve_tiles n_tile p lg =
     (case antenna_columns_valid p of
        Inl e \<Rightarrow> (lg, Inl e)
      | Inr True \<Rightarrow>
         (case np_max (par_antenna1 p) of
            Inl e \<Rightarrow> (lg, Inl e)
          | Inr mA \<Rightarrow>
             (case np_max (par_antenna2 p) of
                Inl e \<Rightarrow> (lg, Inl e)
              | Inr mB \<Rightarrow>
                 (lg, Inr \<lparr>tile_A = par_antenna1 p, tile_B = par_antenna2 p,
                           tl_n_tile = py_max mA mB, tl_params = p, antenna_flag = False\<rparr>)))
      | Inr False \<Rightarrow> packed_tiles n_tile p lg)"

subsection \<open>Helpers that are not part of the sources\<close>

text \<open>The astrometry dictionary built by \<open>project_slant_orthographic\<close>.\<close>

record astr =
  astr_naxis :: "int list"
  astr_cd :: "real list list"
  astr_cdelt :: "real list"
  astr_crpix :: "real list"
  astr_crval :: "real list"
  astr_ctype :: "string list"
  astr_longpole :: int
  astr_latpole :: int
  astr_pv2 :: "npfloat list"
  astr_pv1 :: "real list"
  astr_axes :: "int list"
  astr_reverse :: int
  astr_coord_sys :: string
  astr_projection :: string
  astr_known :: "int list"
  astr_radecsys :: string
  astr_equinox :: int
  astr_date_obs :: string
  astr_mjd_obs :: real
  astr_x0y0 :: "real list"

text \<open>
  Modelled from the spec: \<open>idl_argunique\<close>, \<open>histogram\<close>, \<open>angle_difference\<close>,
  \<open>parallactic_angle\<close> (module \<open>PyFHD.pyfhd_tools.pyfhd_utils\<close>),
  \<open>altaz_to_radec\<close>, \<open>radec_to_pixel\<close>, \<open>radec_to_altaz\<close> (module
  \<open>PyFHD.pyfhd_tools.unit_conv\<close>) and astropy's \<open>Time\<close> conversions are imported
  by \<open>obs.py\<close> but are not among the sources. The spec calls them "omitted utility
  functions (histogramming, coordinate conversions) that are assumed as correct external
  collaborators". Each is a parameter here: a function that returns a value of the type
  its call site uses, and of which nothing else is assumed unless a theorem says so.

  \<open>histogram data bin_size min max\<close> returns the counts and the reverse indices (its
  first and third result); a keyword that the call does not pass is \<open>None\<close>.
  \<open>angle_difference\<close> is called with \<open>degree = True\<close>. It and
  \<open>parallactic_angle\<close> return a float64, which may be \<open>nan\<close> or infinite.

  Line 117 truncates a quotient of two logarithms, so its result depends on how float64
  rounds them. \<open>math_log10 x\<close> is the float64 that \<open>math.log10\<close> returns at a
  positive \<open>x\<close>, and \<open>float_div a b\<close> the float64 quotient \<open>a / b\<close> for a divisor
  that is not zero. They are parameters as well, and a theorem about line 117 says what it
  assumes of them.
\<close>

record externals =
  idl_argunique :: "real list \<Rightarrow> nat list"
  histogram :: "nparray \<Rightarrow> real option \<Rightarrow> pynum option \<Rightarrow> pynum option \<Rightarrow> int list \<times> nat list"
  angle_difference :: "real \<Rightarrow> real \<Rightarrow> real \<Rightarrow> real \<Rightarrow> npfloat"
  parallactic_angle :: "real \<Rightarrow> real \<Rightarrow> real \<Rightarrow> npfloat"
  altaz_to_radec :: "real \<Rightarrow> real \<Rightarrow> real \<Rightarrow> real \<Rightarrow> real \<Rightarrow> real \<Rightarrow> real \<times> real"
  radec_to_altaz :: "real \<Rightarrow> real \<Rightarrow> real \<Rightarrow> real \<Rightarrow> real \<Rightarrow> real \<Rightarrow> real \<times> real"
  radec_to_pixel :: "real \<Rightarrow> real \<Rightarrow> astr \<Rightarrow> real \<times> real"
  jd_to_decimalyear :: "real \<Rightarrow> real"
  jd_to_fits :: "real \<Rightarrow> string"
  math_log10 :: "real \<Rightarrow> real"
  float_div :: "real \<Rightarrow> real \<Rightarrow> real"

text \<open>A METAFITS file as \<open>read_metafits\<close> reads it: the rows of its table and six
  header cards. The file system maps the two parts of the path
  \<open>Path(input_path, obs_id + '.metafits')\<close> to the file found there, if any.\<close>

record metafits_row =
  row_Antenna :: int
  row_pol :: string
  row_tile :: int
  row_height :: real
  row_flag :: int

record metafits =
  mf_data :: "metafits_row list"
  mf_RA :: real
  mf_DEC :: real
  mf_RAPHASE :: real
  mf_DECPHASE :: real
  mf_INTTIME :: real
  mf_DELAYS :: string

type_synonym filesystem = "string \<times> string \<Rightarrow> metafits option"

subsection \<open>\<open>create_obs\<close>, lines 41 to 72: time and frequency bins\<close>

text \<open>
  Lines 41 to 54. With more than one time step \<open>bin_width\<close> is an array holding
  \<open>b0i[0] + 1\<close> and then the differences of consecutive entries of \<open>b0i\<close>. Otherwise
  line 48 binds \<open>bin_width\<close> to the integer \<open>time.size\<close>, and the item assignment of
  line 50 raises TypeError. The result is \<open>n_time\<close>, \<open>bin_width\<close> and
  \<open>bin_offset\<close>.
\<close>

definition time_bins :: "externals \<Rightarrow> real list \<Rightarrow> exn + nat \<times> int list \<times> int list" where
  "time_bins ext time =
     (let b0i = idl_argunique ext time;
          n_time = length b0i
      in if 1 < n_time
         then let bin_width =
                    (int (b0i ! 0) + 1) # map (\<lambda>i. int (b0i ! i) - int (b0i ! (i - 1))) [1..<n_time];
                  bin_offset = 0 # tl (map (\<lambda>k. sum_list (take k bin_width)) [0..<n_time])
              in Inr (n_time, bin_width, bin_offset)
         else Inl TypeError)"

text \<open>Lines 68 to 70, the loop over the bins of the frequency histogram. Reading
  \<open>freq_ri[bin + 1]\<close> past the end and assigning at an index past the end of
  \<open>freq_bin_i\<close> raise IndexError; a slice is cut at the end of the array.\<close>

fun freq_bin_loop :: "nat list \<Rightarrow> nat list \<Rightarrow> int list \<Rightarrow> exn + int list" where
  "freq_bin_loop ri [] fbi = Inr fbi"
| "freq_bin_loop ri (b # bs) fbi =
     (if Suc b < length ri
      then if ri ! b < ri ! Suc b
           then let idx = take (ri ! Suc b - ri ! b) (drop (ri ! b) ri)
                in if list_all (\<lambda>i. i < length fbi) idx
                   then freq_bin_loop ri bs (foldl (\<lambda>a i. a[i := int b]) fbi idx)
                   else Inl IndexError
           else freq_bin_loop ri bs fbi
      else Inl IndexError)"

text \<open>\<open>np.median\<close>: \<open>nan\<close> for an empty array.\<close>

definition np_median :: "real list \<Rightarrow> npfloat" where
  "np_median xs =
     (let s = sort xs; n = length xs
      in if n = 0 then NaN
         else if odd n then Finite (s ! (n div 2))
         else Finite ((s ! (n div 2 - 1) + s ! (n div 2)) / 2))"

text \<open>Lines 59 to 72: \<open>beam_nfreq_avg\<close>, \<open>fbin_i\<close> and \<open>freq_center\<close>.\<close>

definition freq_bins :: "externals \<Rightarrow> header \<Rightarrow> config \<Rightarrow> exn + int \<times> int list \<times> npfloat" where
  "freq_bins ext hdr cfg =
     (let freq = hdr_frequency_array hdr;
          beam_nfreq_avg = (case cfg_beam_nfreq_avg cfg of Some b \<Rightarrow> b | None \<Rightarrow> 1);
          freq_bin = of_int beam_nfreq_avg * hdr_freq_res hdr;
          (freq_hist, freq_ri) = histogram ext (FloatArr (map Finite freq)) (Some freq_bin) None None
      in case freq_bin_loop freq_ri [0..<length freq_hist] (replicate (nat (hdr_n_freq hdr)) 0) of
           Inl e \<Rightarrow> Inl e
         | Inr fbin_i \<Rightarrow> Inr (beam_nfreq_avg, fbin_i, np_median freq))"

subsection \<open>\<open>create_obs\<close>, lines 102 to 138: the imaging parameters\<close>

text \<open>
  Lines 102 to 104. \<open>kx_arr\<close> and \<open>ky_arr\<close> are the outer products of the frequencies
  with \<open>uu\<close> and with \<open>vv\<close>, one row per frequency. Adding their squares broadcasts
  along the rows: the two widths must agree unless one of them is 1, else numpy raises
  ValueError.
\<close>

definition outer :: "real list \<Rightarrow> real list \<Rightarrow> real list list" where
  "outer freq xs = map (\<lambda>f. map (\<lambda>x. f * x) xs) freq"

definition widths_agree :: "real list \<Rightarrow> real list \<Rightarrow> bool" where
  "widths_agree uu vv = (length uu = length vv \<or> length uu = 1 \<or> length vv = 1)"

definition row_width :: "real list \<Rightarrow> real list \<Rightarrow> nat" where
  "row_width uu vv = (if length uu = 1 then length vv else length uu)"

definition column :: "real list \<Rightarrow> nat \<Rightarrow> real" where
  "column row j = (if length row = 1 then row ! 0 else row ! j)"

definition kr_arr :: "real list \<Rightarrow> real list \<Rightarrow> real list \<Rightarrow> exn + real list list" where
  "kr_arr freq uu vv =
     (if widths_agree uu vv
      then Inr (map (\<lambda>f. map (\<lambda>j. sqrt ((f * column uu j)\<^sup>2 + (f * column vv j)\<^sup>2)) [0..<row_width uu vv]) freq)
      else Inl ValueError)"

text \<open>Line 105: \<open>max(np.max(np.abs(kx_arr)), np.max(np.abs(ky_arr)))\<close>.\<close>

definition max_baseline :: "real list \<Rightarrow> real list \<Rightarrow> real list \<Rightarrow> exn + real" where
  "max_baseline freq uu vv =
     (case max_real (map abs (concat (outer freq uu))) of
        Inl e \<Rightarrow> Inl e
      | Inr mx \<Rightarrow>
         (case max_real (map abs (concat (outer freq vv))) of
            Inl e \<Rightarrow> Inl e
          | Inr my \<Rightarrow> Inr (max mx my)))"

text \<open>
  Lines 108 to 113. The value computed from \<open>FoV\<close> is stored in \<open>obs['kbinsize']\<close> by
  line 109 and then overwritten by line 111 or line 113, whichever runs. Dividing by a
  \<open>FoV\<close> of zero raises ZeroDivisionError.
\<close>

definition imaging_kbinsize :: "config \<Rightarrow> exn + real" where
  "imaging_kbinsize cfg =
     (case (case cfg_FoV cfg of
              None \<Rightarrow> Inr None
            | Some fov \<Rightarrow> if fov = 0 then Inl ZeroDivisionError else Inr (Some ((180 / pi) / fov))) of
        Inl e \<Rightarrow> Inl e
      | Inr from_FoV \<Rightarrow>
         (case cfg_kbinsize cfg of
            None \<Rightarrow> Inr (1 / 2)
          | Some k \<Rightarrow> Inr k))"

text \<open>Python's \<open>int\<close> of a float rounds towards zero.\<close>

definition py_int :: "real \<Rightarrow> int" where
  "py_int x = (if 0 \<le> x then \<lfloor>x\<rfloor> else \<lceil>x\<rceil>)"

text \<open>
  Line 117 followed by line 129:
  \<open>int(2 ** int(log10((2 * max_baseline) / pyfhd_config['kbinsize']) / log10(2)))\<close>.
  A \<open>kbinsize\<close> of \<open>None\<close> raises TypeError. The inner quotient is a numpy float64
  division, so a \<open>kbinsize\<close> of zero gives \<open>inf\<close> or \<open>nan\<close>, at which \<open>int\<close> raises
  OverflowError or ValueError; \<open>math.log10\<close> raises ValueError at a quotient that is not
  positive. Both logarithms and both quotients are the float64 results
  (\<open>math_log10\<close>, \<open>float_div\<close>); doubling a float64 is exact. The outer quotient
  divides two Python floats, which raises ZeroDivisionError at a zero divisor.
  \<open>2 ** k\<close> is an integer for \<open>k \<ge> 0\<close> and a float otherwise.
\<close>

definition derived_dimension :: "externals \<Rightarrow> real \<Rightarrow> real option \<Rightarrow> exn + int" where
  "derived_dimension ext mb kbinsize =
     (case kbinsize of
        None \<Rightarrow> Inl TypeError
      | Some kb \<Rightarrow>
          if kb = 0 then (if 0 < mb then Inl OverflowError else Inl ValueError)
          else let r = float_div ext (2 * mb) kb
               in if r \<le> 0 then Inl ValueError
                  else if math_log10 ext 2 = 0 then Inl ZeroDivisionError
                  else let k = py_int (float_div ext (math_log10 ext r) (math_log10 ext 2))
                       in Inr (if 0 \<le> k then 2 ^ nat k else py_int (2 powr of_int k)))"

text \<open>Lines 116 to 130: \<open>obs['dimension']\<close> and \<open>obs['elements']\<close>. The configured
  values are integers, on which \<open>int\<close> changes nothing.\<close>

definition select_dimension :: "externals \<Rightarrow> config \<Rightarrow> real \<Rightarrow> exn + int \<times> int" where
  "select_dimension ext cfg mb =
     (case (cfg_dimension cfg, cfg_elements cfg) of
        (None, None) \<Rightarrow>
          (case derived_dimension ext mb (cfg_kbinsize cfg) of
             Inl e \<Rightarrow> Inl e
           | Inr d \<Rightarrow> Inr (d, d))
      | (Some d, None) \<Rightarrow> Inr (d, d)
      | (None, Some e) \<Rightarrow> Inr (e, e)
      | (Some d, Some e) \<Rightarrow> Inr (d, e))"

text \<open>Line 131: \<open>(180 / pi) / (pyfhd_config['kbinsize'] * pyfhd_config['dimension'])\<close>, on
  the values of the configuration. A product with \<open>None\<close> raises TypeError.\<close>

definition degpix :: "config \<Rightarrow> exn + real" where
  "degpix cfg =
     (case cfg_kbinsize cfg of
        None \<Rightarrow> Inl TypeError
      | Some k \<Rightarrow>
         (case cfg_dimension cfg of
            None \<Rightarrow> Inl TypeError
          | Some d \<Rightarrow>
              if k * of_int d = 0 then Inl ZeroDivisionError
              else Inr ((180 / pi) / (k * of_int d))))"

text \<open>
  Lines 133 and 134. The mask has the broadcast width; \<open>kx_arr\<close> is then read at the
  positions where the mask holds, which raises IndexError at a column that \<open>kx_arr\<close>
  does not have, and \<open>np.max\<close> raises ValueError when the mask holds nowhere.
  \<open>kbinsize\<close> is not zero here, since line 131 has divided by it.
\<close>

definition usable_max_baseline ::
  "real list \<Rightarrow> real list \<Rightarrow> real list \<Rightarrow> real \<Rightarrow> int \<Rightarrow> int \<Rightarrow> exn + real" where
  "usable_max_baseline freq uu vv kbinsize dimension elements =
     (if widths_agree uu vv
      then let inds = concat (map (\<lambda>f. map (\<lambda>j. (f, j))
                        (filter (\<lambda>j. \<bar>f * column uu j\<bar> / kbinsize < of_int dimension / 2
                                  \<and> \<bar>f * column vv j\<bar> / kbinsize < of_int elements / 2)
                           [0..<row_width uu vv])) freq)
           in if list_all (\<lambda>(f, j). j < length uu) inds
              then max_real (map (\<lambda>(f, j). \<bar>f * uu ! j\<bar>) inds)
              else Inl IndexError
      else Inl ValueError)"

text \<open>Lines 135 to 138: the smallest non-zero entry of \<open>kr_arr\<close>, or the configured
  \<open>min_baseline\<close> when that is larger.\<close>

definition nonzero_min_baseline :: "config \<Rightarrow> real list list \<Rightarrow> exn + real" where
  "nonzero_min_baseline cfg kr =
     (case min_real (filter (\<lambda>x. x \<noteq> 0) (concat kr)) of
        Inl e \<Rightarrow> Inl e
      | Inr m \<Rightarrow>
         (case cfg_min_baseline cfg of
            None \<Rightarrow> Inr m
          | Some c \<Rightarrow> Inr (if c < m then m else c)))"

subsection \<open>The records that \<open>create_obs\<close> and \<open>read_metafits\<close> build\<close>

record obs =
  obs_n_pol :: int
  obs_n_tile :: pynum
  obs_n_freq :: int
  obs_instrument :: string
  obs_n_time :: nat
  obs_n_baselines :: int
  obs_n_vis :: int
  obs_n_vis_raw :: int
  obs_n_vis_in :: int
  obs_n_vis_arr :: "int list"
  obs_freq_res :: real
  obs_beam_nfreq_avg :: int
  obs_freq_center :: npfloat
  obs_kbinsize :: real
  obs_dimension :: int
  obs_elements :: int
  obs_degpix :: real
  obs_max_baseline :: real
  obs_min_baseline :: real

text \<open>\<open>baseline_info\<close> is a local dictionary of \<open>create_obs\<close>.\<close>

record baseline_info =
  bi_bin_offset :: "int list"
  bi_freq :: "real list"
  bi_fbin_i :: "int list"
  bi_tile_A :: nparray
  bi_tile_B :: nparray
  bi_freq_use :: int
  bi_tile_use :: pynum

text \<open>\<open>meta\<close> as it stands when \<open>project_slant_orthographic\<close> is called (line 227),
  and as \<open>read_metafits\<close> returns it.\<close>

record meta_core =
  meta_jdate :: "real list"
  meta_obsx :: real
  meta_obsy :: real
  meta_JD0 :: real
  meta_epoch :: real
  meta_tile_names :: "int list"
  meta_tile_height :: "real list"
  meta_tile_flag :: "int list"
  meta_obsra :: real
  meta_obsdec :: real
  meta_phasera :: real
  meta_phasedec :: real
  meta_time_res :: real
  meta_delays :: "string list option"
  meta_zenra :: real
  meta_zendec :: real

record meta = meta_core +
  meta_astr :: astr
  meta_zenx :: real
  meta_zeny :: real
  meta_obsalt :: real
  meta_obsaz :: real

subsection \<open>\<open>project_slant_orthographic\<close>\<close>

definition radians :: "real \<Rightarrow> real" where
  "radians d = d * pi / 180"

text \<open>Lines 252 to 255.\<close>

definition lon_offset :: "'a meta_core_scheme \<Rightarrow> real" where
  "lon_offset m =
     (if 90 < \<bar>meta_phasera m - meta_zenra m\<bar>
      then meta_phasera m - (if meta_zenra m < meta_phasera m then 360 else - 360) - meta_zenra m
      else meta_phasera m - meta_zenra m)"

text \<open>Lines 256 and 257.\<close>

definition zenith_ang :: "externals \<Rightarrow> 'a meta_core_scheme \<Rightarrow> npfloat" where
  "zenith_ang ext m =
     angle_difference ext (meta_phasera m) (meta_phasedec m) (meta_zenra m) (meta_zendec m)"

definition parallactic_ang :: "externals \<Rightarrow> 'a meta_core_scheme \<Rightarrow> npfloat" where
  "parallactic_ang ext m = parallactic_angle ext (meta_zendec m) (lon_offset m) (meta_phasedec m)"

text \<open>
  Lines 259 and 260 work on float64 values. A product with \<open>nan\<close> is \<open>nan\<close>, also when
  the other factor is zero, and so is the product of zero and an infinity.
  \<open>np.radians\<close> keeps a value that is not finite; \<open>np.sin\<close>, \<open>np.cos\<close> and
  \<open>np.tan\<close> return \<open>nan\<close> at one. At an odd multiple of 90 degrees the tangent has a
  pole: float64 returns a number of the order of \<open>1e16\<close> there, for which \<open>inf\<close> stands
  here.
\<close>

fun np_mul :: "npfloat \<Rightarrow> npfloat \<Rightarrow> npfloat" where
  "np_mul (Finite a) (Finite b) = Finite (a * b)"
| "np_mul (Finite a) PosInf = (if a = 0 then NaN else if 0 < a then PosInf else NegInf)"
| "np_mul (Finite a) NegInf = (if a = 0 then NaN else if 0 < a then NegInf else PosInf)"
| "np_mul PosInf (Finite b) = (if b = 0 then NaN else if 0 < b then PosInf else NegInf)"
| "np_mul NegInf (Finite b) = (if b = 0 then NaN else if 0 < b then NegInf else PosInf)"
| "np_mul PosInf PosInf = PosInf"
| "np_mul PosInf NegInf = NegInf"
| "np_mul NegInf PosInf = NegInf"
| "np_mul NegInf NegInf = PosInf"
| "np_mul NaN y = NaN"
| "np_mul x NaN = NaN"

fun np_radians :: "npfloat \<Rightarrow> npfloat" where
  "np_radians (Finite d) = Finite (radians d)"
| "np_radians x = x"

fun np_sin :: "npfloat \<Rightarrow> npfloat" where
  "np_sin (Finite x) = Finite (sin x)"
| "np_sin x = NaN"

fun np_cos :: "npfloat \<Rightarrow> npfloat" where
  "np_cos (Finite x) = Finite (cos x)"
| "np_cos x = NaN"

fun np_tan :: "npfloat \<Rightarrow> npfloat" where
  "np_tan (Finite x) = (if cos x = 0 then PosInf else Finite (tan x))"
| "np_tan x = NaN"


definition xi :: "externals \<Rightarrow> 'a meta_core_scheme \<Rightarrow> npfloat" where
  "xi ext m =
     np_mul (np_mul (Finite (- 1)) (np_tan (np_radians (zenith_ang ext m))))
            (np_sin (np_radians (parallactic_ang ext m)))"

definition eta :: "externals \<Rightarrow> 'a meta_core_scheme \<Rightarrow> npfloat" where
  "eta ext m =
     np_mul (np_tan (np_radians (zenith_ang ext m))) (np_cos (np_radians (parallactic_ang ext m)))"

text \<open>Lines 265 to 295, with the default \<open>epoch = 2000\<close>: the astrometry dictionary
  and the pixel coordinates of the zenith.\<close>

definition project_slant_orthographic ::
  "externals \<Rightarrow> 'a meta_core_scheme \<Rightarrow> obs \<Rightarrow> astr \<times> real \<times> real" where
  "project_slant_orthographic ext m ob =
     (let astr =
        \<lparr>astr_naxis = [obs_dimension ob, obs_elements ob],
         astr_cd = [[1, 0], [0, 1]],
         astr_cdelt = [obs_degpix ob, obs_degpix ob],
         astr_crpix = [meta_obsx m + 1, meta_obsy m + 1],
         astr_crval = [meta_phasera m, meta_phasedec m],
         astr_ctype = [''RA---'' @ ''SIN'', ''DEC--'' @ ''SIN''],
         astr_longpole = 180,
         astr_latpole = 0,
         astr_pv2 = [xi ext m, eta ext m],
         astr_pv1 = [0, 0, 90, 180, 0],
         astr_axes = [1, 2],
         astr_reverse = 0,
         astr_coord_sys = ''C'',
         astr_projection = ''SIN'',
         astr_known = [1],
         astr_radecsys = ''ICRS'',
         astr_equinox = 2000,
         astr_date_obs = jd_to_fits ext (meta_JD0 m),
         astr_mjd_obs = meta_JD0 m - 24000005 / 10,
         astr_x0y0 = [0, 0]\<rparr>;
          (zenx, zeny) = radec_to_pixel ext (meta_zenra m) (meta_zendec m) astr
      in (astr, zenx, zeny))"

subsection \<open>\<open>read_metafits\<close>\<close>

text \<open>Lines 168 to 173: \<open>jdate = time[b0i]\<close> raises IndexError at an index past the end
  of \<open>time\<close>, and \<open>np.min\<close> raises ValueError on an empty \<open>jdate\<close>.\<close>

definition meta_times :: "externals \<Rightarrow> params \<Rightarrow> exn + nat list \<times> real list \<times> real" where
  "meta_times ext p =
     (let time = par_time p; b0i = idl_argunique ext time
      in if list_all (\<lambda>i. i < length time) b0i
         then (case min_real (map (\<lambda>i. time ! i) b0i) of
                 Inl e \<Rightarrow> Inl e
               | Inr jd0 \<Rightarrow> Inr (b0i, map (\<lambda>i. time ! i) b0i, jd0))
         else Inl IndexError)"

text \<open>\<open>str.split(',')\<close>.\<close>

fun split_comma :: "string \<Rightarrow> string list" where
  "split_comma [] = [[]]"
| "split_comma (c # cs) =
     (if c = CHR '','' then [] # split_comma cs
      else (case split_comma cs of
              [] \<Rightarrow> [[c]]
            | w # ws \<Rightarrow> (c # w) # ws))"

text \<open>What either branch of line 176 fills in: tile names, heights and flags, the
  observation and phase centres, the time resolution and the delays.\<close>

record tile_meta =
  tm_tile_names :: "int list"
  tm_tile_height :: "real list"
  tm_tile_flag :: "int list"
  tm_obsra :: real
  tm_obsdec :: real
  tm_phasera :: real
  tm_phasedec :: real
  tm_time_res :: real
  tm_delays :: "string list option"

text \<open>
  Lines 177 to 198, the METAFITS branch. The table is sorted stably by antenna number;
  \<open>data['pol'][0]\<close> raises IndexError on an empty table. \<open>tile_flag\<close> is the whole
  flag column, one entry per row. \<open>exit()\<close> raises SystemExit.
\<close>

definition load_metafits ::
  "metafits \<Rightarrow> header \<Rightarrow> config \<Rightarrow> logger \<Rightarrow> logger \<times> (exn + tile_meta)" where
  "load_metafits mf hdr cfg lg =
     (let data = sort_key row_Antenna (mf_data mf)
      in case data of
           [] \<Rightarrow> (lg, Inl IndexError)
         | r0 # rest \<Rightarrow>
            let single = filter (\<lambda>r. row_pol r = row_pol r0) data;
                tile_flag = map row_flag data;
                tm = \<lparr>tm_tile_names = map row_tile single,
                      tm_tile_height = map (\<lambda>r. row_height r - hdr_alt hdr) single,
                      tm_tile_flag = tile_flag,
                      tm_obsra = mf_RA mf, tm_obsdec = mf_DEC mf,
                      tm_phasera = mf_RAPHASE mf, tm_phasedec = mf_DECPHASE mf,
                      tm_time_res = mf_INTTIME mf,
                      tm_delays = Some (split_comma (mf_DELAYS mf))\<rparr>
            in if sum_list tile_flag = int (length tile_flag) - 1
               then if cfg_run_simulation cfg
                    then (lg @ [Warning AllTilesFlagged], Inr tm)
                    else (lg @ [Error AllTilesFlagged], Inl SystemExit)
               else (lg, Inr tm))"

text \<open>Adding two histograms: equal lengths, or one of length 1, else ValueError.\<close>

definition np_add :: "int list \<Rightarrow> int list \<Rightarrow> exn + int list" where
  "np_add xs ys =
     (if length xs = length ys then Inr (map2 (+) xs ys)
      else if length xs = 1 then Inr (map (\<lambda>y. xs ! 0 + y) ys)
      else if length ys = 1 then Inr (map (\<lambda>x. x + ys ! 0) xs)
      else Inl ValueError)"

text \<open>
  Lines 200 to 221, the fallback branch. \<open>np.arange(1, n_tile + 1)\<close> raises
  ValueError at an \<open>n_tile\<close> that is infinite or \<open>nan\<close>;
  \<open>np.zeros(n_tile)\<close> raises TypeError at a float and ValueError at a negative
  integer; assigning at an index past the end of \<open>tile_flag\<close> raises IndexError.
\<close>

definition header_meta ::
  "externals \<Rightarrow> obs \<Rightarrow> header \<Rightarrow> params \<Rightarrow> nat list \<Rightarrow> logger \<Rightarrow> logger \<times> (exn + tile_meta)" where
  "header_meta ext ob hdr p b0i lg =
     (let lg' = lg @ [Warning MetafitsNotFound];
          hist_A1 = fst (histogram ext (par_antenna1 p) None (Some (PyInt 1)) (Some (obs_n_tile ob)));
          hist_B1 = fst (histogram ext (par_antenna2 p) None (Some (PyInt 1)) (Some (obs_n_tile ob)))
      in case np_add hist_A1 hist_B1 of
           Inl e \<Rightarrow> (lg', Inl e)
         | Inr hist_AB \<Rightarrow>
            (case obs_n_tile ob of
               NpFloat (Finite x) \<Rightarrow> (lg', Inl TypeError)
             | NpFloat PosInf \<Rightarrow> (lg', Inl ValueError)
             | NpFloat NegInf \<Rightarrow> (lg', Inl ValueError)
             | NpFloat NaN \<Rightarrow> (lg', Inl ValueError)
             | PyInt n \<Rightarrow>
                if n < 0 then (lg', Inl ValueError)
                else let tile_use = filter (\<lambda>k. hist_AB ! k = 0) [0..<length hist_AB]
                     in if list_all (\<lambda>k. k < nat n) tile_use
                        then (lg', Inr
                          \<lparr>tm_tile_names = map int [1..<Suc (nat n)],
                           tm_tile_height = replicate (nat n) 0,
                           tm_tile_flag = foldl (\<lambda>a k. a[k := 1]) (replicate (nat n) 0) tile_use,
                           tm_obsra = hdr_obsra hdr, tm_obsdec = hdr_obsdec hdr,
                           tm_phasera = hdr_obsra hdr, tm_phasedec = hdr_obsdec hdr,
                           tm_time_res =
                             (if 1 < length b0i
                              then (par_time p ! (b0i ! 1) - par_time p ! (b0i ! 0)) * 24 * 3600
                              else 1),
                           tm_delays = None\<rparr>)
                        else (lg', Inl IndexError)))"

text \<open>The whole of \<open>read_metafits\<close>. The last line adds \<open>astr\<close>, \<open>zenx\<close>,
  \<open>zeny\<close>, \<open>obsalt\<close> and \<open>obsaz\<close> to the entries that \<open>meta\<close> has when the
  projection is computed.\<close>

definition read_metafits ::
  "externals \<Rightarrow> filesystem \<Rightarrow> obs \<Rightarrow> header \<Rightarrow> params \<Rightarrow> config \<Rightarrow> logger
     \<Rightarrow> logger \<times> (exn + meta)" where
  "read_metafits ext fs ob hdr p cfg lg =
     (case meta_times ext p of
        Inl e \<Rightarrow> (lg, Inl e)
      | Inr (b0i, jdate, jd0) \<Rightarrow>
         (case (case fs (cfg_input_path cfg, cfg_obs_id cfg @ ''.metafits'') of
                  Some mf \<Rightarrow> load_metafits mf hdr cfg lg
                | None \<Rightarrow> header_meta ext ob hdr p b0i lg) of
            (lg', Inl e) \<Rightarrow> (lg', Inl e)
          | (lg', Inr tm) \<Rightarrow>
             let (zenra, zendec) =
                   altaz_to_radec ext 90 0 (hdr_lat hdr) (hdr_lon hdr) (hdr_alt hdr) jd0;
                 core =
                   \<lparr>meta_jdate = jdate,
                    meta_obsx = of_int (obs_dimension ob) / 2,
                    meta_obsy = of_int (obs_elements ob) / 2,
                    meta_JD0 = jd0,
                    meta_epoch = jd_to_decimalyear ext jd0,
                    meta_tile_names = tm_tile_names tm,
                    meta_tile_height = tm_tile_height tm,
                    meta_tile_flag = tm_tile_flag tm,
                    meta_obsra = tm_obsra tm, meta_obsdec = tm_obsdec tm,
                    meta_phasera = tm_phasera tm, meta_phasedec = tm_phasedec tm,
                    meta_time_res = tm_time_res tm,
                    meta_delays = tm_delays tm,
                    meta_zenra = zenra, meta_zendec = zendec\<rparr>;
                 (astr, zenx, zeny) = project_slant_orthographic ext core ob;
                 (obsalt, obsaz) =
                   radec_to_altaz ext (tm_obsra tm) (tm_obsdec tm)
                     (hdr_lat hdr) (hdr_lon hdr) (hdr_alt hdr) jd0
             in (lg', Inr (meta_core.extend core (meta.fields astr zenx zeny obsalt obsaz)))))"

subsection \<open>\<open>create_obs\<close>\<close>

text \<open>
  The local variables of \<open>create_obs\<close> when line 143 is reached: \<open>obs\<close>,
  \<open>baseline_info\<close>, \<open>params\<close> (the caller's dictionary, whose antenna columns the
  packed branch has overwritten) and \<open>meta\<close>.
\<close>

record locals =
  loc_obs :: obs
  loc_baseline_info :: baseline_info
  loc_params :: params
  loc_meta :: meta

text \<open>Lines 34 to 140, statement by statement; the first raise ends the run, and the
  log entries written before it stay written. Line 57 raises ValueError at a negative
  \<open>n_freq\<close>.\<close>

definition create_obs_locals ::
  "externals \<Rightarrow> filesystem \<Rightarrow> header \<Rightarrow> params \<Rightarrow> config \<Rightarrow> logger \<Rightarrow> logger \<times> (exn + locals)" where
  "create_obs_locals ext fs hdr p cfg lg =
     (case time_bins ext (par_time p) of
        Inl e \<Rightarrow> (lg, Inl e)
      | Inr (n_time, bin_width, bin_offset) \<Rightarrow>
     (if hdr_n_freq hdr < 0 then (lg, Inl ValueError)
      else
     (case freq_bins ext hdr cfg of
        Inl e \<Rightarrow> (lg, Inl e)
      | Inr (beam_nfreq_avg, fbin_i, freq_center) \<Rightarrow>
     (case resolve_tiles (hdr_n_tile hdr) p lg of
        (lg1, Inl e) \<Rightarrow> (lg1, Inl e)
      | (lg1, Inr ts) \<Rightarrow>
     (case kr_arr (hdr_frequency_array hdr) (par_uu p) (par_vv p) of
        Inl e \<Rightarrow> (lg1, Inl e)
      | Inr kr \<Rightarrow>
     (case max_baseline (hdr_frequency_array hdr) (par_uu p) (par_vv p) of
        Inl e \<Rightarrow> (lg1, Inl e)
      | Inr mb \<Rightarrow>
     (case imaging_kbinsize cfg of
        Inl e \<Rightarrow> (lg1, Inl e)
      | Inr kbinsize \<Rightarrow>
     (case select_dimension ext cfg mb of
        Inl e \<Rightarrow> (lg1, Inl e)
      | Inr (dimension, elements) \<Rightarrow>
     (case degpix cfg of
        Inl e \<Rightarrow> (lg1, Inl e)
      | Inr dp \<Rightarrow>
     (case usable_max_baseline (hdr_frequency_array hdr) (par_uu p) (par_vv p)
             kbinsize dimension elements of
        Inl e \<Rightarrow> (lg1, Inl e)
      | Inr omax \<Rightarrow>
     (case nonzero_min_baseline cfg kr of
        Inl e \<Rightarrow> (lg1, Inl e)
      | Inr omin \<Rightarrow>
     (let n_vis = int (length (par_time p)) * hdr_n_freq hdr;
          ob = \<lparr>obs_n_pol = hdr_n_pol hdr,
                obs_n_tile = tl_n_tile ts,
                obs_n_freq = hdr_n_freq hdr,
                obs_instrument = cfg_instrument cfg,
                obs_n_time = n_time,
                obs_n_baselines = hd bin_width,
                obs_n_vis = n_vis,
                obs_n_vis_raw = n_vis,
                obs_n_vis_in = n_vis,
                obs_n_vis_arr = replicate (nat (hdr_n_freq hdr)) 0,
                obs_freq_res = hdr_freq_res hdr,
                obs_beam_nfreq_avg = beam_nfreq_avg,
                obs_freq_center = freq_center,
                obs_kbinsize = kbinsize,
                obs_dimension = dimension,
                obs_elements = elements,
                obs_degpix = dp,
                obs_max_baseline = omax,
                obs_min_baseline = omin\<rparr>;
          bi = \<lparr>bi_bin_offset = bin_offset,
                bi_freq = hdr_frequency_array hdr,
                bi_fbin_i = fbin_i,
                bi_tile_A = tile_A ts,
                bi_tile_B = tile_B ts,
                bi_freq_use = hdr_n_freq hdr + 1,
                bi_tile_use = py_succ (tl_n_tile ts)\<rparr>
      in (case read_metafits ext fs ob hdr (tl_params ts) cfg lg1 of
            (lg2, Inl e) \<Rightarrow> (lg2, Inl e)
          | (lg2, Inr m) \<Rightarrow>
              (lg2, Inr \<lparr>loc_obs = ob, loc_baseline_info = bi,
                         loc_params = tl_params ts, loc_meta = m\<rparr>))))))))))))))"

text \<open>Line 143, \<open>return obs\<close>: of the local variables, \<open>obs\<close> is what the caller
  gets.\<close>

definition create_obs ::
  "externals \<Rightarrow> filesystem \<Rightarrow> header \<Rightarrow> params \<Rightarrow> config \<Rightarrow> logger \<Rightarrow> logger \<times> (exn + obs)" where
  "create_obs ext fs hdr p cfg lg =
     (case create_obs_locals ext fs hdr p cfg lg of
        (lg', Inl e) \<Rightarrow> (lg', Inl e)
      | (lg', Inr l) \<Rightarrow> (lg', Inr (loc_obs l)))"

subsection \<open>Auxiliary predicates and concrete inputs\<close>

text \<open>A float64 that is not negative (\<open>nan\<close> counts), and one that is positive.\<close>

fun not_negative :: "npfloat \<Rightarrow> bool" where
  "not_negative (Finite x) = (0 \<le> x)"
| "not_negative NegInf = False"
| "not_negative PosInf = True"
| "not_negative NaN = True"

fun positive :: "npfloat \<Rightarrow> bool" where
  "positive (Finite x) = (0 < x)"
| "positive PosInf = True"
| "positive NegInf = False"
| "positive NaN = False"

text \<open>Three visibilities of the antenna pairs (1,1), (1,2) and (2,2), once with the
  antenna columns filled in and once with only the packed index \<open>256 * A + B\<close>.\<close>

definition params_explicit :: params where
  "params_explicit =
     \<lparr>par_time = [10, 10, 11], par_baseline_arr = [257, 258, 514],
      par_antenna1 = IntArr [1, 1, 2], par_antenna2 = IntArr [1, 2, 2],
      par_uu = [0, 3, 6], par_vv = [0, 4, 8]\<rparr>"

definition params_packed :: params where
  "params_packed =
     \<lparr>par_time = [10, 10, 11], par_baseline_arr = [257, 258, 514],
      par_antenna1 = IntArr [0, 0, 0], par_antenna2 = IntArr [0, 0, 0],
      par_uu = [0, 3, 6], par_vv = [0, 4, 8]\<rparr>"

text \<open>The values of an array as float64 values, for comparing integer and float arrays.\<close>

fun arr_values :: "nparray \<Rightarrow> npfloat list" where
  "arr_values (IntArr xs) = map (\<lambda>x. Finite (of_int x)) xs"
| "arr_values (FloatArr xs) = xs"

text \<open>
  Stand-ins for the helpers, used where a theorem is applied to a concrete run:
  the index of the last element of every run of equal times; a histogram that counts
  the occurrences of each integer from \<open>min\<close> to \<open>max\<close>, or puts everything in one
  bin when no range is given; constant or linear coordinate conversions that return
  finite angles; and the exact logarithm and quotient, which at the quotients 3 and 64
  used below truncate to the same integers as their float64 values
  (\<open>1.584962500721156\<close> and \<open>6.0\<close>).
\<close>

fun last_of_runs :: "nat \<Rightarrow> real list \<Rightarrow> nat list" where
  "last_of_runs i [] = []"
| "last_of_runs i [x] = [i]"
| "last_of_runs i (x # y # ys) =
     (if x = y then last_of_runs (Suc i) (y # ys) else i # last_of_runs (Suc i) (y # ys))"

definition counting_histogram ::
  "nparray \<Rightarrow> real option \<Rightarrow> pynum option \<Rightarrow> pynum option \<Rightarrow> int list \<times> nat list" where
  "counting_histogram data bin_size mn mx =
     (case (mn, mx) of
        (Some (PyInt lo), Some (PyInt hi)) \<Rightarrow>
          (map (\<lambda>k. int (length (filter (\<lambda>v. v = Finite (of_int (lo + int k))) (arr_values data))))
             [0..<nat (hi - lo + 1)], [])
      | _ \<Rightarrow>
          ([int (length (arr_values data))],
           [2, 2 + length (arr_values data)] @ [0..<length (arr_values data)]))"

definition sample_externals :: externals where
  "sample_externals =
     \<lparr>idl_argunique = last_of_runs 0,
      histogram = counting_histogram,
      angle_difference = (\<lambda>ra1 dec1 ra2 dec2. Finite (\<bar>ra1 - ra2\<bar> + \<bar>dec1 - dec2\<bar>)),
      parallactic_angle = (\<lambda>lat ha dec. Finite ha),
      altaz_to_radec = (\<lambda>alt az lat lon height jd. (lon, lat)),
      radec_to_altaz = (\<lambda>ra dec lat lon height jd. (90, 0)),
      radec_to_pixel = (\<lambda>ra dec a. (0, 0)),
      jd_to_decimalyear = (\<lambda>jd. 2000 + (jd - 2451545) / 365),
      jd_to_fits = (\<lambda>jd. ''2000-01-01T12:00:00.000''),
      math_log10 = log 10,
      float_div = (\<lambda>a b. a / b)\<rparr>"

text \<open>A header with two tiles and two frequencies, and a configuration that sets a
  field of view, a \<open>kbinsize\<close> and a \<open>dimension\<close>.\<close>

definition sample_header :: header where
  "sample_header =
     \<lparr>hdr_n_pol = 2, hdr_n_tile = 2, hdr_n_freq = 2, hdr_freq_res = 1,
      hdr_frequency_array = [1, 2], hdr_obsra = 0, hdr_obsdec = - 27,
      hdr_lat = - 27, hdr_lon = 116, hdr_alt = 377\<rparr>"

definition sample_config :: config where
  "sample_config =
     \<lparr>cfg_instrument = ''mwa'', cfg_beam_nfreq_avg = None, cfg_FoV = Some 90,
      cfg_kbinsize = Some (1 / 2), cfg_dimension = Some 64, cfg_elements = None,
      cfg_min_baseline = None, cfg_run_simulation = False,
      cfg_input_path = ''/data'', cfg_obs_id = ''obs1''\<rparr>"

text \<open>A directory without a METAFITS file, and two with one: two tiles with two
  polarisations each and no flag set, pointing at different phase centres.\<close>

definition no_metafits :: filesystem where
  "no_metafits = (\<lambda>path. None)"

definition sample_rows :: "int list \<Rightarrow> metafits_row list" where
  "sample_rows flags =
     map (\<lambda>(a, pl, f). \<lparr>row_Antenna = a, row_pol = pl, row_tile = 10 + a, row_height = 377, row_flag = f\<rparr>)
       (zip [1, 1, 2, 2] (zip [''X'', ''Y'', ''X'', ''Y''] flags))"

definition sample_metafits :: "int list \<Rightarrow> real \<Rightarrow> metafits" where
  "sample_metafits flags raphase =
     \<lparr>mf_data = sample_rows flags, mf_RA = 0, mf_DEC = - 27, mf_RAPHASE = raphase,
      mf_DECPHASE = - 27, mf_INTTIME = 2, mf_DELAYS = ''0,0''\<rparr>"

definition with_metafits :: "metafits \<Rightarrow> filesystem" where
  "with_metafits mf = (\<lambda>path. if path = (''/data'', ''obs1.metafits'') then Some mf else None)"

text \<open>The observation and metadata records that the run on these inputs builds.\<close>

definition sample_obs :: obs where
  "sample_obs =
     \<lparr>obs_n_pol = 2, obs_n_tile = PyInt 2, obs_n_freq = 2, obs_instrument = ''mwa'',
      obs_n_time = 2, obs_n_baselines = 2, obs_n_vis = 6, obs_n_vis_raw = 6, obs_n_vis_in = 6,
      obs_n_vis_arr = [0, 0], obs_freq_res = 1, obs_beam_nfreq_avg = 1,
      obs_freq_center = Finite (3 / 2), obs_kbinsize = 1 / 2, obs_dimension = 64,
      obs_elements = 64, obs_degpix = (180 / pi) / 32, obs_max_baseline = 6,
      obs_min_baseline = 5\<rparr>"

definition sample_meta :: "int list \<Rightarrow> real \<Rightarrow> meta" where
  "sample_meta flags raphase =
     \<lparr>meta_jdate = [10, 11], meta_obsx = 32, meta_obsy = 32, meta_JD0 = 10,
      meta_epoch = 2000 + (10 - 2451545) / 365,
      meta_tile_names = [11, 12], meta_tile_height = [0, 0], meta_tile_flag = flags,
      meta_obsra = 0, meta_obsdec = - 27, meta_phasera = raphase, meta_phasedec = - 27,
      meta_time_res = 2, meta_delays = Some [''0'', ''0''],
      meta_zenra = 116, meta_zendec = - 27,
      meta_astr =
        \<lparr>astr_naxis = [64, 64], astr_cd = [[1, 0], [0, 1]],
         astr_cdelt = [(180 / pi) / 32, (180 / pi) / 32],
         astr_crpix = [33, 33], astr_crval = [raphase, - 27],
         astr_ctype = [''RA---SIN'', ''DEC--SIN''], astr_longpole = 180, astr_latpole = 0,
         astr_pv2 = [Finite (- 1 * tan (radians \<bar>raphase - 116\<bar>) * sin (radians (raphase - 116))),
                     Finite (tan (radians \<bar>raphase - 116\<bar>) * cos (radians (raphase - 116)))],
         astr_pv1 = [0, 0, 90, 180, 0], astr_axes = [1, 2], astr_reverse = 0,
         astr_coord_sys = ''C'', astr_projection = ''SIN'', astr_known = [1],
         astr_radecsys = ''ICRS'', astr_equinox = 2000,
         astr_date_obs = ''2000-01-01T12:00:00.000'', astr_mjd_obs = 10 - 24000005 / 10,
         astr_x0y0 = [0, 0]\<rparr>,
      meta_zenx = 0, meta_zeny = 0, meta_obsalt = 90, meta_obsaz = 0\<rparr>"

text \<open>A METAFITS table of three tiles with two polarisations each.\<close>

definition three_tile_metafits :: "int list \<Rightarrow> metafits" where
  "three_tile_metafits flags =
     \<lparr>mf_data =
        map (\<lambda>(a, pl, f). \<lparr>row_Antenna = a, row_pol = pl, row_tile = 10 + a, row_height = 377, row_flag = f\<rparr>)
          (zip [1, 1, 2, 2, 3, 3] (zip [''X'', ''Y'', ''X'', ''Y'', ''X'', ''Y''] flags)),
      mf_RA = 0, mf_DEC = - 27, mf_RAPHASE = 116, mf_DECPHASE = - 27, mf_INTTIME = 2,
      mf_DELAYS = ''0,0''\<rparr>"


text \<open>
  The tiles of a METAFITS table are its antenna numbers. A tile is flagged when the flag
  of each of its rows is set; \<open>flagged_tiles\<close> counts the flagged tiles.
\<close>

definition tile_numbers :: "metafits \<Rightarrow> int list" where
  "tile_numbers mf = remdups (map row_Antenna (mf_data mf))"

definition tile_flagged :: "metafits \<Rightarrow> int \<Rightarrow> bool" where
  "tile_flagged mf a = list_all (\<lambda>r. row_flag r = 1) (filter (\<lambda>r. row_Antenna r = a) (mf_data mf))"

definition flagged_tiles :: "metafits \<Rightarrow> int" where
  "flagged_tiles mf = int (length (filter (tile_flagged mf) (tile_numbers mf)))"

text \<open>The number of rows of a METAFITS table whose flag is set, and the condition that
  every flag of the table is 0 or 1.\<close>

definition flagged_rows :: "metafits \<Rightarrow> int" where
  "flagged_rows mf = int (length (filter (\<lambda>r. row_flag r = 1) (mf_data mf)))"

definition flags_are_0_or_1 :: "metafits \<Rightarrow> bool" where
  "flags_are_0_or_1 mf = list_all (\<lambda>r. row_flag r = 0 \<or> row_flag r = 1) (mf_data mf)"



section \<open>Verified properties\<close>

subsection \<open>Decoding of packed baselines\<close>

lemma floor_eq_fix: "not_negative q \<Longrightarrow> np_floor q = np_fix q"
  by (cases q) auto

lemma quotient_not_negative:
  "0 \<le> b \<Longrightarrow> not_negative m \<Longrightarrow> not_negative (np_div (Finite b) m)"
  by (cases m) auto

lemma power2_floor_not_negative: "not_negative (np_power2 (np_floor e))"
  by (cases e) auto

lemma correction_positive:
  "np_less (Finite 1) t \<Longrightarrow>
   positive (np_power2 (np_floor (np_div (np_log t) (np_log (Finite 2)))))"
  by (cases t) auto

lemma div_by_positive: "not_negative a \<Longrightarrow> positive d \<Longrightarrow> not_negative (np_div a d)"
  by (cases a; cases d) auto

lemma antenna_mod_index_not_negative: "not_negative (antenna_mod_index bm)"
  unfolding antenna_mod_index_def Let_def
  by (auto intro!: div_by_positive power2_floor_not_negative correction_positive)

lemma antenna_mod_index_finite:
  assumes "0 < bm"
  shows "\<exists>m. antenna_mod_index bm = Finite m \<and> 0 < m"
proof -
  have l2: "np_log (Finite 2) = Finite (ln 2)" by simp
  have e: "np_div (np_log (Finite bm)) (np_log (Finite 2)) = Finite (ln bm / ln 2)"
    using assms by simp
  show ?thesis
  proof (cases "np_mod bm (np_power2 (np_floor (Finite (ln bm / ln 2))))")
    case (Finite t)
    then show ?thesis
      unfolding antenna_mod_index_def Let_def e
      by (auto simp: l2)
  qed (auto simp: antenna_mod_index_def Let_def e)
qed

lemma foldl_min_positive:
  "0 < x \<Longrightarrow> list_all (\<lambda>b. 0 < b) xs \<Longrightarrow> 0 < foldl min x (xs :: real list)"
  by (induction xs arbitrary: x) auto

lemma min_real_positive:
  "min_real xs = Inr bm \<Longrightarrow> list_all (\<lambda>b. 0 < b) xs \<Longrightarrow> 0 < bm"
  by (cases xs) (auto simp: foldl_min_positive)

lemma packed_tiles_floor_fix:
  assumes "packed_tiles n p lg = (lg', Inr ts)"
  shows "\<exists>tA tB. tile_A ts = FloatArr tA \<and> tile_B ts = FloatArr tB
           \<and> length tA = length (par_baseline_arr p) \<and> length tB = length (par_baseline_arr p)
           \<and> (\<forall>i < length (par_baseline_arr p). 0 \<le> par_baseline_arr p ! i \<longrightarrow> tA ! i = tB ! i)"
  using assms unfolding packed_tiles_def Let_def
  by (auto split: sum.splits if_splits
      simp: floor_eq_fix quotient_not_negative antenna_mod_index_not_negative)

lemma packed_tiles_np_eq:
  assumes "packed_tiles n p lg = (lg', Inr ts)"
    and pos: "list_all (\<lambda>b. 0 < b) (par_baseline_arr p)"
  shows "\<exists>tA tB. tile_A ts = FloatArr tA \<and> tile_B ts = FloatArr tB \<and> list_all2 np_eq tA tB"
proof -
  obtain bm where bm: "min_real (par_baseline_arr p) = Inr bm"
    using assms(1) unfolding packed_tiles_def by (auto split: sum.splits)
  then have "0 < bm" using pos by (rule min_real_positive)
  then obtain m where m: "antenna_mod_index bm = Finite m" "0 < m"
    using antenna_mod_index_finite by blast
  have same: "np_eq (np_floor (np_div (Finite b) (Finite m))) (np_fix (np_div (Finite b) (Finite m)))"
    if "0 < b" for b
    using that m(2) by simp
  have "list_all2 np_eq (map (\<lambda>b. np_floor (np_div (Finite b) (Finite m))) (par_baseline_arr p))
          (map (\<lambda>b. np_fix (np_div (Finite b) (Finite m))) (par_baseline_arr p))"
    using pos same by (simp add: list_all2_map1 list_all2_map2 list_all2_same list_all_iff)
  then show ?thesis
    using assms(1) bm m(1) unfolding packed_tiles_def Let_def
    by (auto split: sum.splits if_splits)
qed

lemma resolve_tiles_packed:
  assumes "resolve_tiles n p lg = (lg', Inr ts)" and "antenna_flag ts"
  shows "packed_tiles n p lg = (lg', Inr ts)"
  using assms unfolding resolve_tiles_def
  by (auto split: sum.splits bool.splits)

lemma floor_log2_257: "\<lfloor>ln 257 / ln (2::real)\<rfloor> = 8"
proof -
  have "\<lfloor>log 2 (257::real)\<rfloor> = 8"
    by (subst floor_log_eq_powr_iff) (simp_all add: powr_numeral)
  then show ?thesis by (simp add: log_def)
qed

lemma antenna_mod_index_257: "antenna_mod_index 257 = Finite 256"
  by (simp add: antenna_mod_index_def Let_def floor_log2_257 powr_numeral)

lemma resolve_tiles_params_packed:
  "resolve_tiles 2 params_packed [] =
     ([], Inr \<lparr>tile_A = FloatArr [Finite 1, Finite 1, Finite 2],
               tile_B = FloatArr [Finite 1, Finite 1, Finite 2], tl_n_tile = PyInt 2,
               tl_params = params_packed
                 \<lparr>par_antenna1 := FloatArr [Finite 1, Finite 1, Finite 2],
                  par_antenna2 := FloatArr [Finite 1, Finite 1, Finite 2]\<rparr>,
               antenna_flag = True\<rparr>)"
  by (simp add: resolve_tiles_def antenna_columns_valid_def packed_tiles_def params_packed_def
      py_less_def py_neq_def py_max_def np_maximum_def antenna_mod_index_257 Let_def)

text \<open>
  Claim C3. In the packed-baseline branch of \<open>create_obs\<close> (lines 80 to 96, taken when
  the antenna columns do not both have a positive maximum), \<open>tile_A\<close> and
  \<open>tile_B\<close> are float arrays as long as \<open>baseline_arr\<close>, and at every
  non-negative entry of \<open>baseline_arr\<close> the two hold the same value: the floor and the
  rounding towards zero of the same non-negative quotient. When all baseline indices are
  positive the values are finite, so the arrays are also equal under numpy's \<open>==\<close>.
  No decoded baseline pairs two distinct antennas.
\<close>

theorem packed_decoding_tile_A_equals_tile_B:
  assumes "resolve_tiles n p lg = (lg', Inr ts)" and "antenna_flag ts"
  shows "\<exists>tA tB. tile_A ts = FloatArr tA \<and> tile_B ts = FloatArr tB
           \<and> length tA = length (par_baseline_arr p) \<and> length tB = length (par_baseline_arr p)
           \<and> (\<forall>i < length (par_baseline_arr p). 0 \<le> par_baseline_arr p ! i \<longrightarrow> tA ! i = tB ! i)
           \<and> (list_all (\<lambda>b. 0 < b) (par_baseline_arr p) \<longrightarrow> list_all2 np_eq tA tB)"
proof -
  have pt: "packed_tiles n p lg = (lg', Inr ts)"
    using assms by (rule resolve_tiles_packed)
  from packed_tiles_floor_fix [OF pt] packed_tiles_np_eq [OF pt]
  show ?thesis by fastforce
qed

theorem packed_decoding_tile_A_equals_tile_B_witness:
  "resolve_tiles 2 params_packed [] =
     ([], Inr \<lparr>tile_A = FloatArr [Finite 1, Finite 1, Finite 2],
               tile_B = FloatArr [Finite 1, Finite 1, Finite 2], tl_n_tile = PyInt 2,
               tl_params = params_packed
                 \<lparr>par_antenna1 := FloatArr [Finite 1, Finite 1, Finite 2],
                  par_antenna2 := FloatArr [Finite 1, Finite 1, Finite 2]\<rparr>,
               antenna_flag = True\<rparr>)
   \<and> list_all (\<lambda>b. 0 < b) (par_baseline_arr params_packed)
   \<and> 0 \<le> par_baseline_arr params_packed ! 1
   \<and> (\<exists>tA tB. FloatArr [Finite 1, Finite 1, Finite 2] = FloatArr tA
          \<and> FloatArr [Finite 1, Finite 1, Finite 2] = FloatArr tB
          \<and> tA ! 1 = tB ! 1 \<and> list_all2 np_eq tA tB)"
proof -
  have pos: "list_all (\<lambda>b. 0 < b) (par_baseline_arr params_packed)"
    by (simp add: params_packed_def)
  have len: "1 < length (par_baseline_arr params_packed)"
    and nn: "0 \<le> par_baseline_arr params_packed ! 1"
    by (simp_all add: params_packed_def)
  from packed_decoding_tile_A_equals_tile_B [OF resolve_tiles_params_packed]
  obtain tA tB where
    "FloatArr [Finite 1, Finite 1, Finite 2] = FloatArr tA"
    "FloatArr [Finite 1, Finite 1, Finite 2] = FloatArr tB"
    "\<forall>i < length (par_baseline_arr params_packed).
        0 \<le> par_baseline_arr params_packed ! i \<longrightarrow> tA ! i = tB ! i"
    "list_all (\<lambda>b. 0 < b) (par_baseline_arr params_packed) \<longrightarrow> list_all2 np_eq tA tB"
    by auto
  with pos len nn resolve_tiles_params_packed show ?thesis by blast
qed

subsection \<open>Explicit antenna columns\<close>

text \<open>
  Claim C8. When both \<open>params['antenna1']\<close> and \<open>params['antenna2']\<close> have a
  positive maximum, lines 74 to 96 of \<open>create_obs\<close> set \<open>tile_A\<close> and
  \<open>tile_B\<close> to those columns unchanged, \<open>antenna_flag\<close> is cleared so that the
  packed-baseline branch is not taken, \<open>params\<close> is left as it was and nothing is
  logged.
\<close>

theorem explicit_antenna_columns_unmodified:
  assumes "np_max (par_antenna1 p) = Inr m1" and "py_less (PyInt 0) m1"
    and "np_max (par_antenna2 p) = Inr m2" and "py_less (PyInt 0) m2"
  shows "resolve_tiles n p lg =
           (lg, Inr \<lparr>tile_A = par_antenna1 p, tile_B = par_antenna2 p,
                     tl_n_tile = py_max m1 m2, tl_params = p, antenna_flag = False\<rparr>)"
  using assms by (simp add: resolve_tiles_def antenna_columns_valid_def)

theorem explicit_antenna_columns_unmodified_witness:
  "np_max (par_antenna1 params_explicit) = Inr (PyInt 2) \<and> py_less (PyInt 0) (PyInt 2)
   \<and> np_max (par_antenna2 params_explicit) = Inr (PyInt 2)
   \<and> resolve_tiles 2 params_explicit [] =
        ([], Inr \<lparr>tile_A = IntArr [1, 1, 2], tile_B = IntArr [1, 2, 2],
                  tl_n_tile = PyInt 2, tl_params = params_explicit, antenna_flag = False\<rparr>)"
proof -
  have a: "np_max (par_antenna1 params_explicit) = Inr (PyInt 2)"
    and b: "np_max (par_antenna2 params_explicit) = Inr (PyInt 2)"
    by (simp_all add: params_explicit_def)
  have c: "py_less (PyInt 0) (PyInt 2)" by (simp add: py_less_def)
  from explicit_antenna_columns_unmodified [OF a c b c, of 2 "[]"] a b c
  show ?thesis by (simp add: params_explicit_def py_max_def py_less_def)
qed

subsection \<open>A run of \<open>create_obs\<close> on the concrete inputs\<close>

lemma run_time_bins: "time_bins sample_externals (par_time params_explicit) = Inr (2, [2, 1], [0, 2])"
  by (simp add: time_bins_def sample_externals_def params_explicit_def Let_def upt_rec numeral_2_eq_2 numeral_nat)

lemma run_freq_bins: "freq_bins sample_externals sample_header sample_config = Inr (1, [0, 0], Finite (3/2))"
  by (simp add: freq_bins_def sample_externals_def sample_header_def sample_config_def
      counting_histogram_def np_median_def Let_def upt_rec numeral_nat)

lemma sqrt_vals: "sqrt 25 = 5" "sqrt 100 = 10" "sqrt 400 = 20"
  by (rule real_sqrt_unique; simp)+

lemma run_kr_arr: "kr_arr (hdr_frequency_array sample_header) (par_uu params_explicit) (par_vv params_explicit)
   = Inr [[0, 5, 10], [0, 10, 20]]"
  by (simp add: kr_arr_def sample_header_def params_explicit_def widths_agree_def row_width_def
      column_def upt_rec numeral_nat sqrt_vals)

lemma run_max_baseline: "max_baseline (hdr_frequency_array sample_header) (par_uu params_explicit) (par_vv params_explicit)
   = Inr 16"
  by (simp add: max_baseline_def outer_def sample_header_def params_explicit_def)

lemma run_kbinsize: "imaging_kbinsize sample_config = Inr (1 / 2)"
  by (simp add: imaging_kbinsize_def sample_config_def)

lemma run_select_dimension: "select_dimension sample_externals sample_config 16 = Inr (64, 64)"
  by (simp add: select_dimension_def sample_config_def)

lemma run_degpix: "degpix sample_config = Inr ((180 / pi) / 32)"
  by (simp add: degpix_def sample_config_def)

lemma run_usable_max_baseline: "usable_max_baseline (hdr_frequency_array sample_header) (par_uu params_explicit)
    (par_vv params_explicit) (1 / 2) 64 64 = Inr 6"
  by (simp add: usable_max_baseline_def sample_header_def params_explicit_def widths_agree_def
      row_width_def column_def upt_rec numeral_nat Let_def)

lemma run_nonzero_min_baseline: "nonzero_min_baseline sample_config [[0, 5, 10], [0, 10, 20]] = Inr 5"
  by (simp add: nonzero_min_baseline_def sample_config_def)

lemma run_meta_times: "meta_times sample_externals params_explicit = Inr ([1, 2], [10, 11], 10)"
  by (simp add: meta_times_def sample_externals_def params_explicit_def Let_def)

lemma run_header_meta: "header_meta sample_externals sample_obs sample_header params_explicit [1, 2] []
  = ([Warning MetafitsNotFound], Inr \<lparr>tm_tile_names = [1, 2], tm_tile_height = [0, 0],
       tm_tile_flag = [0, 0], tm_obsra = 0, tm_obsdec = - 27, tm_phasera = 0, tm_phasedec = - 27,
       tm_time_res = 86400, tm_delays = None\<rparr>)"
  by (simp add: header_meta_def sample_externals_def sample_obs_def sample_header_def
      params_explicit_def counting_histogram_def np_add_def Let_def upt_rec numeral_nat)

lemma run_read_metafits_fallback: "\<exists>m. read_metafits sample_externals no_metafits sample_obs sample_header params_explicit sample_config []
  = ([Warning MetafitsNotFound], Inr m) \<and> meta_tile_flag m = [0, 0]"
  apply (simp only: read_metafits_def run_meta_times no_metafits_def sum.case prod.case option.case run_header_meta)
  apply (simp add: Let_def sample_externals_def sample_header_def project_slant_orthographic_def
      meta_core.defs meta.defs)
  done

lemma run_resolve_tiles: "resolve_tiles (hdr_n_tile sample_header) params_explicit [] =
        ([], Inr \<lparr>tile_A = IntArr [1, 1, 2], tile_B = IntArr [1, 2, 2],
                  tl_n_tile = PyInt 2, tl_params = params_explicit, antenna_flag = False\<rparr>)"
  by (simp add: resolve_tiles_def antenna_columns_valid_def params_explicit_def py_max_def py_less_def)

lemma run_load_metafits: "load_metafits (sample_metafits [0, 0, 0, 0] r) sample_header sample_config []
  = ([], Inr \<lparr>tm_tile_names = [11, 12], tm_tile_height = [0, 0],
       tm_tile_flag = [0, 0, 0, 0], tm_obsra = 0, tm_obsdec = - 27, tm_phasera = r, tm_phasedec = - 27,
       tm_time_res = 2, tm_delays = Some [''0'', ''0'']\<rparr>)"
  by (simp add: load_metafits_def sample_metafits_def sample_rows_def sample_header_def
      sample_config_def Let_def)

lemma run_filesystem: "with_metafits mf (cfg_input_path sample_config, cfg_obs_id sample_config @ ''.metafits'') = Some mf"
  by (simp add: with_metafits_def sample_config_def)

lemma cos_radians_nonzero: "\<bar>a\<bar> < 90 \<Longrightarrow> cos (radians a) \<noteq> 0"
proof -
  assume a: "\<bar>a\<bar> < 90"
  have p: "0 < pi / 180" by simp
  have "(- 90) * (pi / 180) < a * (pi / 180)"
    using a p by (intro mult_strict_right_mono) auto
  moreover have "a * (pi / 180) < 90 * (pi / 180)"
    using a p by (intro mult_strict_right_mono) auto
  ultimately have "- (pi / 2) < radians a" and "radians a < pi / 2"
    by (simp_all add: radians_def)
  then have "0 < cos (radians a)" by (rule cos_gt_zero_pi)
  then show ?thesis by simp
qed

lemma run_read_metafits: "\<bar>r - 116\<bar> < 90 \<Longrightarrow> read_metafits sample_externals (with_metafits (sample_metafits [0, 0, 0, 0] r)) sample_obs
    sample_header params_explicit sample_config [] = ([], Inr (sample_meta [0, 0, 0, 0] r))"
  apply (simp only: read_metafits_def run_meta_times run_filesystem sum.case prod.case option.case run_load_metafits)
  apply (auto simp add: Let_def sample_externals_def sample_header_def sample_obs_def project_slant_orthographic_def
      meta_core.defs meta.defs sample_meta_def xi_def eta_def zenith_ang_def parallactic_ang_def lon_offset_def
      cos_radians_nonzero)
  done

lemma run_create_obs_locals:
  assumes "\<bar>r - 116\<bar> < 90"
  shows "create_obs_locals sample_externals (with_metafits (sample_metafits [0, 0, 0, 0] r))
           sample_header params_explicit sample_config [] =
         ([], Inr \<lparr>loc_obs = sample_obs,
            loc_baseline_info =
              \<lparr>bi_bin_offset = [0, 2], bi_freq = [1, 2], bi_fbin_i = [0, 0],
               bi_tile_A = IntArr [1, 1, 2], bi_tile_B = IntArr [1, 2, 2],
               bi_freq_use = 3, bi_tile_use = PyInt 3\<rparr>,
            loc_params = params_explicit, loc_meta = sample_meta [0, 0, 0, 0] r\<rparr>)"
proof -
  have ob: "\<lparr>obs_n_pol = hdr_n_pol sample_header, obs_n_tile = PyInt 2,
     obs_n_freq = hdr_n_freq sample_header, obs_instrument = cfg_instrument sample_config,
     obs_n_time = 2, obs_n_baselines = 2,
     obs_n_vis = int (length (par_time params_explicit)) * hdr_n_freq sample_header,
     obs_n_vis_raw = int (length (par_time params_explicit)) * hdr_n_freq sample_header,
     obs_n_vis_in = int (length (par_time params_explicit)) * hdr_n_freq sample_header,
     obs_n_vis_arr = replicate (nat (hdr_n_freq sample_header)) 0,
     obs_freq_res = hdr_freq_res sample_header, obs_beam_nfreq_avg = 1,
     obs_freq_center = Finite (3 / 2), obs_kbinsize = 1 / 2, obs_dimension = 64,
     obs_elements = 64, obs_degpix = 180 / pi / 32, obs_max_baseline = 6,
     obs_min_baseline = 5\<rparr> = sample_obs"
    by (simp add: sample_obs_def sample_header_def sample_config_def params_explicit_def numeral_nat)
  have nf: "\<not> hdr_n_freq sample_header < 0" by (simp add: sample_header_def)
  show ?thesis
    apply (simp only: create_obs_locals_def run_time_bins run_freq_bins run_resolve_tiles
        run_kr_arr run_max_baseline run_kbinsize run_select_dimension run_degpix
        run_usable_max_baseline run_nonzero_min_baseline nf sum.case prod.case if_False
        Let_def tiles.simps list.sel ob run_read_metafits [OF assms])
    apply (simp add: sample_header_def)
    done
qed

lemma run_create_obs:
  assumes "\<bar>r - 116\<bar> < 90"
  shows "create_obs sample_externals (with_metafits (sample_metafits [0, 0, 0, 0] r))
           sample_header params_explicit sample_config [] = ([], Inr sample_obs)"
  by (simp add: create_obs_def run_create_obs_locals [OF assms])

subsection \<open>Stages of \<open>create_obs\<close>\<close>

lemma create_obs_locals_stages:
  assumes "create_obs_locals ext fs hdr p cfg lg = (lg', Inr l)"
  shows "\<exists>mb. max_baseline (hdr_frequency_array hdr) (par_uu p) (par_vv p) = Inr mb
            \<and> select_dimension ext cfg mb = Inr (obs_dimension (loc_obs l), obs_elements (loc_obs l))
            \<and> degpix cfg = Inr (obs_degpix (loc_obs l))
            \<and> imaging_kbinsize cfg = Inr (obs_kbinsize (loc_obs l))"
  using assms unfolding create_obs_locals_def Let_def
  by (auto split: sum.splits prod.splits if_splits)

lemma create_obs_completes:
  assumes "create_obs ext fs hdr p cfg lg = (lg', Inr ob)"
  shows "\<exists>l. create_obs_locals ext fs hdr p cfg lg = (lg', Inr l) \<and> loc_obs l = ob"
  using assms unfolding create_obs_def by (auto split: sum.splits prod.splits)

lemma degpix_needs_both: "degpix cfg = Inr d \<Longrightarrow> cfg_kbinsize cfg \<noteq> None \<and> cfg_dimension cfg \<noteq> None"
  unfolding degpix_def by (auto split: option.splits)

lemma log10_ratio: "log 10 r / log 10 2 = log 2 r"
  by (simp add: log_base_change [of 10 2 r])

lemma truncation_bounds:
  assumes "0 \<le> L"
  shows "0 \<le> py_int L"
    and "2 ^ nat (py_int L) \<le> 2 powr L"
    and "2 powr L < 2 ^ (nat (py_int L) + 1)"
proof -
  have k: "py_int L = \<lfloor>L\<rfloor>" using assms by (simp add: py_int_def)
  show k0: "0 \<le> py_int L" using assms by (simp add: k)
  have le: "of_int (py_int L) \<le> L" and lt: "L < of_int (py_int L) + 1"
    unfolding k by linarith+
  have a: "2 powr (of_int (py_int L)) \<le> 2 powr L" using le by simp
  have b: "2 powr L < 2 powr (of_int (py_int L) + 1)" using lt by simp
  have c: "2 powr (of_int (py_int L)) = (2::real) ^ nat (py_int L)"
    using k0 by (simp add: powr_int)
  have d: "2 powr (of_int (py_int L) + 1) = (2::real) ^ (nat (py_int L) + 1)"
    using k0 by (simp add: powr_add powr_int)
  from a show "2 ^ nat (py_int L) \<le> 2 powr L" unfolding c .
  from b show "2 powr L < 2 ^ (nat (py_int L) + 1)" unfolding d .
qed

lemma rounding_bounds:
  assumes "0 < q" and "\<bar>L - log 2 q\<bar> \<le> e"
    and "2 ^ k \<le> 2 powr L" and "2 powr L < 2 ^ (k + 1)"
  shows "2 ^ k \<le> q * 2 powr e" and "q < 2 ^ (k + 1) * 2 powr e"
proof -
  have q: "2 powr (log 2 q) = q" using assms(1) by simp
  have "L \<le> log 2 q + e" using assms(2) by linarith
  then have "2 powr L \<le> 2 powr (log 2 q + e)" by simp
  also have "\<dots> = q * 2 powr e" by (simp only: powr_add q)
  finally show "2 ^ k \<le> q * 2 powr e" using assms(3) by linarith
  have "log 2 q \<le> L + e" using assms(2) by linarith
  then have "2 powr (log 2 q) \<le> 2 powr (L + e)" by simp
  then have "q \<le> 2 powr L * 2 powr e" by (simp only: powr_add q)
  also have "\<dots> < 2 ^ (k + 1) * 2 powr e"
    using assms(4) by (intro mult_strict_right_mono) simp_all
  finally show "q < 2 ^ (k + 1) * 2 powr e" .
qed

lemma derived_dimension_power:
  assumes "kb \<noteq> 0" and "0 < float_div ext (2 * mb) kb" and "math_log10 ext 2 \<noteq> 0"
    and "0 \<le> float_div ext (math_log10 ext (float_div ext (2 * mb) kb)) (math_log10 ext 2)"
  shows "derived_dimension ext mb (Some kb) =
           Inr (2 ^ nat (py_int (float_div ext (math_log10 ext (float_div ext (2 * mb) kb))
                                   (math_log10 ext 2))))"
proof -
  have "\<not> float_div ext (2 * mb) kb \<le> 0" using assms(2) by simp
  then show ?thesis
    using assms(1,3) truncation_bounds(1) [OF assms(4)] by (simp add: derived_dimension_def Let_def)
qed

lemma log10_2_nonzero: "log 10 2 \<noteq> 0"
proof -
  have "0 < log 10 (2::real)" by simp
  then show ?thesis by linarith
qed

lemma log2_64: "log 10 64 / log 10 2 = 6"
proof -
  have "real 6 = log 2 (real 64)" by (rule log2_of_power_eq) simp
  then show ?thesis by (simp add: log10_ratio)
qed

lemma dd64: "derived_dimension sample_externals 16 (Some (1 / 2)) = Inr 64"
  by (simp add: derived_dimension_def sample_externals_def Let_def log2_64 py_int_def log10_2_nonzero)

lemma log2_3: "py_int (log 10 3 / log 10 2) = 1"
proof -
  have "\<lfloor>log 2 (3::real)\<rfloor> = 1"
    by (subst floor_log_eq_powr_iff) simp_all
  moreover have "0 \<le> log 2 (3::real)" by simp
  ultimately show ?thesis by (simp add: py_int_def log10_ratio)
qed

lemma dd3: "derived_dimension sample_externals (3 / 2) (Some 1) = Inr 2"
  by (simp add: derived_dimension_def sample_externals_def Let_def log2_3 log10_2_nonzero)

lemma foldl_max_Max: "foldl max x xs = Max (set (x # xs))" for x :: real
proof (induction xs arbitrary: x)
  case Nil
  show ?case by simp
next
  case (Cons y ys)
  have "foldl max x (y # ys) = Max (set (max x y # ys))" using Cons by simp
  also have "\<dots> = Max (insert x (insert y (set ys)))"
  proof (cases "ys = []")
    case True
    then show ?thesis by simp
  next
    case False
    then show ?thesis by (simp add: max.assoc)
  qed
  finally show ?case by simp
qed

lemma max_real_Max: "max_real xs = Inr m \<Longrightarrow> xs \<noteq> [] \<and> m = Max (set xs)"
proof (cases xs)
  case Nil
  assume "max_real xs = Inr m"
  with Nil show ?thesis by simp
next
  case (Cons y ys)
  assume "max_real xs = Inr m"
  with Cons have "m = foldl max y ys" by simp
  with Cons show ?thesis by (simp only: foldl_max_Max) simp
qed

lemma max_real_bounds:
  assumes "max_real ys = Inr m"
  shows "\<forall>a \<in> set ys. a \<le> m" and "m \<in> set ys"
proof -
  from max_real_Max [OF assms] have ne: "set ys \<noteq> {}" and m: "m = Max (set ys)" by simp_all
  show "\<forall>a \<in> set ys. a \<le> m" unfolding m by (simp add: Max_ge)
  show "m \<in> set ys" unfolding m using ne by (intro Max_in) simp_all
qed

lemma outer_mem:
  "f \<in> set freq \<Longrightarrow> x \<in> set xs \<Longrightarrow> \<bar>f * x\<bar> \<in> set (map abs (concat (outer freq xs)))"
  unfolding outer_def by auto

lemma outer_mem_conv:
  "a \<in> set (map abs (concat (outer freq xs))) \<Longrightarrow> \<exists>f \<in> set freq. \<exists>x \<in> set xs. a = \<bar>f * x\<bar>"
  unfolding outer_def by auto

lemma max_baseline_Max:
  assumes "max_baseline freq uu vv = Inr mb"
  shows "(\<forall>f \<in> set freq. \<forall>x \<in> set uu \<union> set vv. \<bar>f * x\<bar> \<le> mb)
       \<and> (\<exists>f \<in> set freq. \<exists>x \<in> set uu \<union> set vv. mb = \<bar>f * x\<bar>)"
proof -
  from assms obtain mx my where
    mx: "max_real (map abs (concat (outer freq uu))) = Inr mx" and
    my: "max_real (map abs (concat (outer freq vv))) = Inr my" and
    mb: "mb = max mx my"
    unfolding max_baseline_def by (auto split: sum.splits)
  note bx = max_real_bounds [OF mx] and by' = max_real_bounds [OF my]
  have ub: "\<bar>f * x\<bar> \<le> mb" if "f \<in> set freq" "x \<in> set uu \<union> set vv" for f x
  proof -
    from that(2) consider "x \<in> set uu" | "x \<in> set vv" by blast
    then show ?thesis
    proof cases
      case 1
      with that(1) bx(1) outer_mem have "\<bar>f * x\<bar> \<le> mx" by blast
      then show ?thesis unfolding mb by simp
    next
      case 2
      with that(1) by'(1) outer_mem have "\<bar>f * x\<bar> \<le> my" by blast
      then show ?thesis unfolding mb by simp
    qed
  qed
  have att: "\<exists>f \<in> set freq. \<exists>x \<in> set uu \<union> set vv. mb = \<bar>f * x\<bar>"
  proof (cases "mx \<le> my")
    case True
    then have "mb = my" unfolding mb by simp
    with outer_mem_conv [OF by'(2)] show ?thesis by blast
  next
    case False
    then have "mb = mx" unfolding mb by simp
    with outer_mem_conv [OF bx(2)] show ?thesis by blast
  qed
  from ub att show ?thesis by blast
qed


subsection \<open>Completion of \<open>create_obs\<close>\<close>

text \<open>
  Claim C2. \<open>create_obs\<close> returns without raising only when both
  \<open>pyfhd_config['kbinsize']\<close> and \<open>pyfhd_config['dimension']\<close> are set: line 131
  multiplies the two configured values, so with either of them \<open>None\<close> it raises
  TypeError, and no run that relies on the default \<open>kbinsize\<close> or on the derived
  dimension gets past it.
\<close>

theorem create_obs_needs_kbinsize_and_dimension:
  assumes "create_obs ext fs hdr p cfg lg = (lg', Inr ob)"
  shows "cfg_kbinsize cfg \<noteq> None \<and> cfg_dimension cfg \<noteq> None
         \<and> degpix cfg \<noteq> Inl TypeError"
proof -
  from create_obs_completes [OF assms] obtain l
    where "create_obs_locals ext fs hdr p cfg lg = (lg', Inr l)" by blast
  from create_obs_locals_stages [OF this] obtain d where d: "degpix cfg = Inr d" by blast
  then show ?thesis using degpix_needs_both [OF d] by simp
qed

theorem create_obs_needs_kbinsize_and_dimension_witness:
  "create_obs sample_externals (with_metafits (sample_metafits [0, 0, 0, 0] 100))
     sample_header params_explicit sample_config [] = ([], Inr sample_obs)
   \<and> cfg_kbinsize sample_config \<noteq> None \<and> cfg_dimension sample_config \<noteq> None"
proof -
  have run: "create_obs sample_externals (with_metafits (sample_metafits [0, 0, 0, 0] 100))
     sample_header params_explicit sample_config [] = ([], Inr sample_obs)"
    by (rule run_create_obs) simp
  from create_obs_needs_kbinsize_and_dimension [OF run] run show ?thesis by simp
qed

subsection \<open>The field of view\<close>

text \<open>
  Claim C1 says that a configured \<open>FoV\<close> determines \<open>obs['kbinsize']\<close>. On the
  inputs below \<open>FoV\<close> is 90 and \<open>kbinsize\<close> is 1/2; \<open>create_obs\<close> returns, and
  \<open>obs['kbinsize']\<close> is 1/2, not \<open>(180 / pi) / 90\<close>: line 109 stores the value
  computed from \<open>FoV\<close>, and line 113 overwrites it.
\<close>

theorem FoV_value_is_overwritten:
  "cfg_FoV sample_config = Some 90
   \<and> create_obs sample_externals (with_metafits (sample_metafits [0, 0, 0, 0] 100))
        sample_header params_explicit sample_config [] = ([], Inr sample_obs)
   \<and> obs_kbinsize sample_obs = 1 / 2
   \<and> obs_kbinsize sample_obs \<noteq> (180 / pi) / 90"
proof -
  have run: "create_obs sample_externals (with_metafits (sample_metafits [0, 0, 0, 0] 100))
     sample_header params_explicit sample_config [] = ([], Inr sample_obs)"
    by (rule run_create_obs) simp
  have "(180 / pi) / 90 \<noteq> (1 / 2 :: real)"
    using pi_less_4 pi_gt_zero by (simp add: field_simps)
  with run show ?thesis by (simp add: sample_config_def sample_obs_def)
qed

subsection \<open>What \<open>create_obs\<close> returns\<close>

text \<open>
  Claim C10 says that the metadata record is part of what \<open>create_obs\<close> returns. On
  the inputs below \<open>read_metafits\<close> builds \<open>meta\<close> (line 140), and line 143 returns
  \<open>obs\<close> alone: two METAFITS files with different phase centres give different
  \<open>meta\<close> records and the same returned value.
\<close>

theorem meta_is_not_returned:
  "create_obs_locals sample_externals (with_metafits (sample_metafits [0, 0, 0, 0] 100))
     sample_header params_explicit sample_config [] =
     ([], Inr \<lparr>loc_obs = sample_obs,
        loc_baseline_info =
          \<lparr>bi_bin_offset = [0, 2], bi_freq = [1, 2], bi_fbin_i = [0, 0],
           bi_tile_A = IntArr [1, 1, 2], bi_tile_B = IntArr [1, 2, 2],
           bi_freq_use = 3, bi_tile_use = PyInt 3\<rparr>,
        loc_params = params_explicit, loc_meta = sample_meta [0, 0, 0, 0] 100\<rparr>)
   \<and> create_obs sample_externals (with_metafits (sample_metafits [0, 0, 0, 0] 100))
        sample_header params_explicit sample_config [] = ([], Inr sample_obs)
   \<and> create_obs sample_externals (with_metafits (sample_metafits [0, 0, 0, 0] 120))
        sample_header params_explicit sample_config [] = ([], Inr sample_obs)
   \<and> meta_phasera (sample_meta [0, 0, 0, 0] 100) \<noteq> meta_phasera (sample_meta [0, 0, 0, 0] 120)"
proof -
  have a: "\<bar>100 - 116\<bar> < (90::real)" and b: "\<bar>120 - 116\<bar> < (90::real)" by simp_all
  show ?thesis
    using run_create_obs_locals [OF a] run_create_obs [OF a] run_create_obs [OF b]
    by (simp add: sample_meta_def)
qed

subsection \<open>Image dimensions\<close>

text \<open>
  Claim C4. Lines 116 to 130 of \<open>create_obs\<close> choose \<open>obs['dimension']\<close> and
  \<open>obs['elements']\<close> in this order: with both \<open>dimension\<close> and \<open>elements\<close>
  configured, both configured values; with exactly one of them configured, that value for
  both; with neither, the derived value for both. Whenever \<open>create_obs\<close> returns,
  the two fields of the returned record are the pair chosen so.
\<close>

theorem dimension_elements_precedence:
  "(cfg_dimension cfg = Some d \<and> cfg_elements cfg = Some e \<longrightarrow> select_dimension ext cfg mb = Inr (d, e))
   \<and> (cfg_dimension cfg = Some d \<and> cfg_elements cfg = None \<longrightarrow> select_dimension ext cfg mb = Inr (d, d))
   \<and> (cfg_dimension cfg = None \<and> cfg_elements cfg = Some e \<longrightarrow> select_dimension ext cfg mb = Inr (e, e))
   \<and> (cfg_dimension cfg = None \<and> cfg_elements cfg = None
        \<and> derived_dimension ext mb (cfg_kbinsize cfg) = Inr v \<longrightarrow> select_dimension ext cfg mb = Inr (v, v))
   \<and> (create_obs ext fs hdr p cfg lg = (lg', Inr ob)
        \<and> max_baseline (hdr_frequency_array hdr) (par_uu p) (par_vv p) = Inr mb
        \<longrightarrow> select_dimension ext cfg mb = Inr (obs_dimension ob, obs_elements ob))"
proof -
  have "select_dimension ext cfg mb = Inr (obs_dimension ob, obs_elements ob)"
    if run: "create_obs ext fs hdr p cfg lg = (lg', Inr ob)"
      and mb: "max_baseline (hdr_frequency_array hdr) (par_uu p) (par_vv p) = Inr mb"
  proof -
    from create_obs_completes [OF run] obtain l
      where l: "create_obs_locals ext fs hdr p cfg lg = (lg', Inr l)" "loc_obs l = ob" by blast
    from create_obs_locals_stages [OF l(1)] mb l(2) show ?thesis by auto
  qed
  then show ?thesis by (simp add: select_dimension_def)
qed

theorem dimension_elements_precedence_witness:
  "select_dimension sample_externals (sample_config\<lparr>cfg_elements := Some 32\<rparr>) 16 = Inr (64, 32)
   \<and> select_dimension sample_externals sample_config 16 = Inr (64, 64)
   \<and> select_dimension sample_externals (sample_config\<lparr>cfg_dimension := None, cfg_elements := Some 32\<rparr>) 16
       = Inr (32, 32)
   \<and> derived_dimension sample_externals 16 (cfg_kbinsize (sample_config\<lparr>cfg_dimension := None\<rparr>)) = Inr 64
   \<and> select_dimension sample_externals (sample_config\<lparr>cfg_dimension := None\<rparr>) 16 = Inr (64, 64)
   \<and> create_obs sample_externals (with_metafits (sample_metafits [0, 0, 0, 0] 100))
        sample_header params_explicit sample_config [] = ([], Inr sample_obs)
   \<and> max_baseline (hdr_frequency_array sample_header) (par_uu params_explicit) (par_vv params_explicit) = Inr 16
   \<and> select_dimension sample_externals sample_config 16
       = Inr (obs_dimension sample_obs, obs_elements sample_obs)"
proof -
  have run: "create_obs sample_externals (with_metafits (sample_metafits [0, 0, 0, 0] 100))
     sample_header params_explicit sample_config [] = ([], Inr sample_obs)"
    by (rule run_create_obs) simp
  have dd: "derived_dimension sample_externals 16 (cfg_kbinsize (sample_config\<lparr>cfg_dimension := None\<rparr>)) = Inr 64"
    by (simp add: sample_config_def dd64)
  have c: "cfg_dimension (sample_config\<lparr>cfg_elements := Some 32\<rparr>) = Some 64"
      "cfg_elements (sample_config\<lparr>cfg_elements := Some 32\<rparr>) = Some 32"
      "cfg_dimension sample_config = Some 64" "cfg_elements sample_config = None"
      "cfg_dimension (sample_config\<lparr>cfg_dimension := None, cfg_elements := Some 32\<rparr>) = None"
      "cfg_elements (sample_config\<lparr>cfg_dimension := None, cfg_elements := Some 32\<rparr>) = Some 32"
      "cfg_dimension (sample_config\<lparr>cfg_dimension := None\<rparr>) = None"
      "cfg_elements (sample_config\<lparr>cfg_dimension := None\<rparr>) = None"
    by (simp_all add: sample_config_def)
  from dimension_elements_precedence [where cfg = "sample_config\<lparr>cfg_elements := Some 32\<rparr>"
        and d = 64 and e = 32 and mb = 16 and ext = sample_externals]
    dimension_elements_precedence [where cfg = sample_config and d = 64 and mb = 16
        and ext = sample_externals and fs = "with_metafits (sample_metafits [0, 0, 0, 0] 100)"
        and hdr = sample_header and p = params_explicit and lg = "[]" and lg' = "[]" and ob = sample_obs]
    dimension_elements_precedence [where cfg = "sample_config\<lparr>cfg_dimension := None, cfg_elements := Some 32\<rparr>"
        and e = 32 and mb = 16 and ext = sample_externals]
    dimension_elements_precedence [where cfg = "sample_config\<lparr>cfg_dimension := None\<rparr>"
        and mb = 16 and v = 64 and ext = sample_externals]
    c dd run run_max_baseline
  show ?thesis by (simp add: sample_obs_def)
qed

text \<open>
  Claim C5 says that the derived dimension is the smallest power of two that is at least
  \<open>2 * max_baseline / kbinsize\<close>. With one frequency 1, \<open>uu = [3/2]\<close>,
  \<open>vv = [0]\<close> and a \<open>kbinsize\<close> of 1 the quotient is 3; the quotient of the
  logarithms is 1.58..., which \<open>int\<close> truncates to 1, and lines 117 and 118 give 2 for
  both fields, which is less than 3.
\<close>

theorem derived_dimension_counterexample:
  "max_baseline [1] [3 / 2] [0] = Inr (3 / 2)
   \<and> select_dimension sample_externals (sample_config\<lparr>cfg_kbinsize := Some 1, cfg_dimension := None\<rparr>) (3 / 2)
       = Inr (2, 2)
   \<and> (2::real) < 2 * (3 / 2) / 1"
  by (simp add: max_baseline_def outer_def select_dimension_def sample_config_def dd3)

text \<open>
  Claim C5 as amended. Let \<open>q\<close> be the float64 value of
  \<open>2 * max_baseline / kbinsize\<close> and \<open>L\<close> the float64 value of
  \<open>log10(q) / log10(2)\<close>. When neither \<open>dimension\<close> nor \<open>elements\<close> is
  configured, \<open>pyfhd_config['kbinsize']\<close> is set and not zero, \<open>q\<close> is positive and
  \<open>L\<close> is not negative, lines 117 and 118 set \<open>obs['dimension']\<close> and
  \<open>obs['elements']\<close> to \<open>2 ** k\<close>, where \<open>k = int(L)\<close> is \<open>L\<close> truncated:
  \<open>2 ** k \<le> 2 ** L < 2 ** (k + 1)\<close>. This is the largest power of two that is at
  most \<open>q\<close> up to the rounding of \<open>L\<close>: when \<open>L\<close> is within \<open>e\<close> of the exact
  logarithm of \<open>q\<close> to base 2, \<open>2 ** k \<le> q * 2 ** e\<close> and
  \<open>q < 2 ** (k + 1) * 2 ** e\<close>. \<open>max_baseline\<close> is the largest of \<open>|kx|\<close> and
  \<open>|ky|\<close> over all products of a frequency with a baseline coordinate.
\<close>

theorem derived_dimension_truncated_logarithm:
  assumes "cfg_dimension cfg = None" and "cfg_elements cfg = None"
    and "cfg_kbinsize cfg = Some kb" and "kb \<noteq> 0"
    and "max_baseline freq uu vv = Inr mb"
    and "q = float_div ext (2 * mb) kb" and "0 < q"
    and "math_log10 ext 2 \<noteq> 0"
    and "L = float_div ext (math_log10 ext q) (math_log10 ext 2)" and "0 \<le> L"
    and "\<bar>L - log 2 q\<bar> \<le> e"
  shows "(\<exists>k::nat. select_dimension ext cfg mb = Inr (2 ^ k, 2 ^ k)
            \<and> int k = py_int L
            \<and> 2 ^ k \<le> 2 powr L \<and> 2 powr L < 2 ^ (k + 1)
            \<and> 2 ^ k \<le> q * 2 powr e \<and> q < 2 ^ (k + 1) * 2 powr e)
         \<and> (\<forall>f \<in> set freq. \<forall>x \<in> set uu \<union> set vv. \<bar>f * x\<bar> \<le> mb)
         \<and> (\<exists>f \<in> set freq. \<exists>x \<in> set uu \<union> set vv. mb = \<bar>f * x\<bar>)"
proof -
  let ?k = "nat (py_int L)"
  have pos: "0 < float_div ext (2 * mb) kb" using assms(6,7) by simp
  have nn: "0 \<le> float_div ext (math_log10 ext (float_div ext (2 * mb) kb)) (math_log10 ext 2)"
    using assms(6,9,10) by simp
  have "derived_dimension ext mb (Some kb) = Inr (2 ^ ?k)"
    using derived_dimension_power [OF assms(4) pos assms(8) nn] assms(6,9) by simp
  then have sel: "select_dimension ext cfg mb = Inr (2 ^ ?k, 2 ^ ?k)"
    using assms(1-3) by (simp add: select_dimension_def)
  have k: "int ?k = py_int L" using truncation_bounds(1) [OF assms(10)] by simp
  note b = truncation_bounds(2,3) [OF assms(10)]
  note r = rounding_bounds [OF assms(7,11) b]
  from sel k b r have "\<exists>k::nat. select_dimension ext cfg mb = Inr (2 ^ k, 2 ^ k)
            \<and> int k = py_int L
            \<and> 2 ^ k \<le> 2 powr L \<and> 2 powr L < 2 ^ (k + 1)
            \<and> 2 ^ k \<le> q * 2 powr e \<and> q < 2 ^ (k + 1) * 2 powr e"
    by blast
  with max_baseline_Max [OF assms(5)] show ?thesis by blast
qed

theorem derived_dimension_truncated_logarithm_witness:
  "cfg_dimension (sample_config\<lparr>cfg_kbinsize := Some 1, cfg_dimension := None\<rparr>) = None
   \<and> cfg_elements (sample_config\<lparr>cfg_kbinsize := Some 1, cfg_dimension := None\<rparr>) = None
   \<and> cfg_kbinsize (sample_config\<lparr>cfg_kbinsize := Some 1, cfg_dimension := None\<rparr>) = Some 1
   \<and> max_baseline [1] [3 / 2] [0] = Inr (3 / 2)
   \<and> float_div sample_externals (2 * (3 / 2)) 1 = 3
   \<and> math_log10 sample_externals 2 \<noteq> 0
   \<and> float_div sample_externals (math_log10 sample_externals 3) (math_log10 sample_externals 2) = log 2 3
   \<and> (0::real) \<le> log 2 3
   \<and> (\<exists>k::nat. select_dimension sample_externals
                   (sample_config\<lparr>cfg_kbinsize := Some 1, cfg_dimension := None\<rparr>) (3 / 2)
                 = Inr (2 ^ k, 2 ^ k)
          \<and> int k = py_int (log 2 3)
          \<and> (2::real) ^ k \<le> 2 powr (log 2 3) \<and> 2 powr (log 2 3) < (2::real) ^ (k + 1)
          \<and> (2::real) ^ k \<le> 3 \<and> (3::real) < 2 ^ (k + 1))
   \<and> (\<exists>f \<in> set [1]. \<exists>x \<in> set [3 / 2] \<union> set [0]. (3 / 2 :: real) = \<bar>f * x\<bar>)"
proof -
  let ?c = "sample_config\<lparr>cfg_kbinsize := Some 1, cfg_dimension := None\<rparr>"
  have c: "cfg_dimension ?c = None" "cfg_elements ?c = None" "cfg_kbinsize ?c = Some 1"
    by (simp_all add: sample_config_def)
  have mb: "max_baseline [1] [3 / 2] [0] = Inr (3 / 2)"
    by (simp add: max_baseline_def outer_def)
  have q: "(3::real) = float_div sample_externals (2 * (3 / 2)) 1" "(0::real) < 3"
    by (simp_all add: sample_externals_def)
  have l2: "math_log10 sample_externals 2 \<noteq> 0" by (simp add: sample_externals_def log10_2_nonzero)
  have L: "log 2 3 = float_div sample_externals (math_log10 sample_externals 3) (math_log10 sample_externals 2)"
    by (simp add: sample_externals_def log10_ratio)
  have nn: "(0::real) \<le> log 2 3" by simp
  have e: "\<bar>log 2 3 - log 2 (3::real)\<bar> \<le> 0" by simp
  have nz: "(1::real) \<noteq> 0" by simp
  from derived_dimension_truncated_logarithm [OF c nz mb q l2 L nn e] c mb q(1) l2 L nn
  show ?thesis by simp
qed

subsection \<open>Tile flags from the METAFITS file\<close>

lemma sum_insort_key: "sum_list (map g (insort_key k x xs)) = g x + sum_list (map g xs)" for g :: "'a \<Rightarrow> int"
  by (induction xs) simp_all

lemma sum_sort_key: "sum_list (map g (sort_key k xs)) = sum_list (map g xs)" for g :: "'a \<Rightarrow> int"
  by (induction xs) (simp_all add: sum_insort_key)

lemma sum_flags:
  "list_all (\<lambda>r. row_flag r = 0 \<or> row_flag r = 1) rows \<Longrightarrow>
   sum_list (map row_flag rows) = int (length (filter (\<lambda>r. row_flag r = 1) rows))"
  by (induction rows) auto

lemma load_metafits_cases:
  assumes "flags_are_0_or_1 mf"
  shows "load_metafits mf hdr cfg lg =
     (if mf_data mf = [] then (lg, Inl IndexError)
      else if flagged_rows mf = int (length (mf_data mf)) - 1
           then if cfg_run_simulation cfg
                then (lg @ [Warning AllTilesFlagged], snd (load_metafits mf hdr (cfg\<lparr>cfg_run_simulation := True\<rparr>) lg))
                else (lg @ [Error AllTilesFlagged], Inl SystemExit)
           else (lg, snd (load_metafits mf hdr cfg lg)))"
proof (cases "sort_key row_Antenna (mf_data mf)")
  case Nil
  then have "length (sort_key row_Antenna (mf_data mf)) = 0" by simp
  then have "mf_data mf = []" by simp
  with Nil show ?thesis by (simp add: load_metafits_def)
next
  case (Cons r0 rest)
  then have "length (sort_key row_Antenna (mf_data mf)) \<noteq> 0" by simp
  then have ne: "mf_data mf \<noteq> []" by simp
  have s: "sum_list (map row_flag (r0 # rest)) = flagged_rows mf"
    using assms sum_sort_key [of row_flag row_Antenna "mf_data mf"] sum_flags [of "mf_data mf"]
    unfolding Cons flags_are_0_or_1_def flagged_rows_def by simp
  have l: "length (r0 # rest) = length (mf_data mf)"
    using length_sort [of row_Antenna "mf_data mf"] unfolding Cons .
  show ?thesis using ne s l Cons
    by (simp add: load_metafits_def Let_def del: sum_list.Cons list.size length_Cons map_eq_Cons_conv list.map)
qed

lemma load_metafits_exit:
  assumes "flags_are_0_or_1 mf" and "flagged_rows mf = int (length (mf_data mf)) - 1"
    and "\<not> cfg_run_simulation cfg"
  shows "load_metafits mf hdr cfg lg = (lg @ [Error AllTilesFlagged], Inl SystemExit)"
proof -
  from assms(2) have "mf_data mf \<noteq> []" by (auto simp: flagged_rows_def)
  then show ?thesis using assms by (subst load_metafits_cases) simp_all
qed

lemma load_metafits_Inr:
  assumes "mf_data mf \<noteq> []"
    and "cfg_run_simulation cfg \<or> sum_list (map row_flag (sort_key row_Antenna (mf_data mf)))
           \<noteq> int (length (sort_key row_Antenna (mf_data mf))) - 1"
  shows "\<exists>tm. snd (load_metafits mf hdr cfg lg) = Inr tm"
proof (cases "sort_key row_Antenna (mf_data mf)")
  case Nil
  then have "length (sort_key row_Antenna (mf_data mf)) = 0" by simp
  with assms(1) show ?thesis by simp
next
  case (Cons r0 rest)
  with assms(2) show ?thesis
    by (auto simp add: load_metafits_def Let_def simp del: sum_list.Cons list.size length_Cons list.map)
qed

lemma read_metafits_raises:
  assumes "meta_times ext p = Inr (b0i, jdate, jd0)"
    and "(case fs (cfg_input_path cfg, cfg_obs_id cfg @ ''.metafits'') of
            Some mf \<Rightarrow> load_metafits mf hdr cfg lg
          | None \<Rightarrow> header_meta ext ob hdr p b0i lg) = (lg', Inl e)"
  shows "read_metafits ext fs ob hdr p cfg lg = (lg', Inl e)"
  by (simp only: read_metafits_def assms sum.case prod.case)

lemma read_metafits_returns:
  assumes "meta_times ext p = Inr (b0i, jdate, jd0)"
    and "(case fs (cfg_input_path cfg, cfg_obs_id cfg @ ''.metafits'') of
            Some mf \<Rightarrow> load_metafits mf hdr cfg lg
          | None \<Rightarrow> header_meta ext ob hdr p b0i lg) = (lg', Inr tm)"
  shows "\<exists>m. read_metafits ext fs ob hdr p cfg lg = (lg', Inr m)
           \<and> meta_tile_flag m = tm_tile_flag tm \<and> meta_tile_names m = tm_tile_names tm"
  apply (simp only: read_metafits_def assms sum.case prod.case)
  apply (simp add: Let_def case_prod_beta meta_core.defs meta.defs)
  done

lemma load_metafits_warn:
  assumes "flags_are_0_or_1 mf" and "flagged_rows mf = int (length (mf_data mf)) - 1"
    and "cfg_run_simulation cfg"
  shows "\<exists>tm. load_metafits mf hdr cfg lg = (lg @ [Warning AllTilesFlagged], Inr tm)"
proof -
  from assms(2) have ne: "mf_data mf \<noteq> []" by (auto simp: flagged_rows_def)
  from load_metafits_Inr [OF ne, of cfg hdr lg] assms(3)
  obtain tm where "snd (load_metafits mf hdr cfg lg) = Inr tm" by blast
  moreover have "fst (load_metafits mf hdr cfg lg) = lg @ [Warning AllTilesFlagged]"
    using ne assms by (subst load_metafits_cases) simp_all
  ultimately show ?thesis by (metis prod.collapse)
qed

lemma load_metafits_quiet:
  assumes "flags_are_0_or_1 mf" and "flagged_rows mf < int (length (mf_data mf)) - 1"
  shows "\<exists>tm. load_metafits mf hdr cfg lg = (lg, Inr tm)"
proof -
  from assms(2) have ne: "mf_data mf \<noteq> []" by (auto simp: flagged_rows_def)
  have "sum_list (map row_flag (sort_key row_Antenna (mf_data mf))) = flagged_rows mf"
    using assms(1) sum_sort_key [of row_flag row_Antenna "mf_data mf"] sum_flags [of "mf_data mf"]
    unfolding flags_are_0_or_1_def flagged_rows_def by simp
  with assms(2) have "sum_list (map row_flag (sort_key row_Antenna (mf_data mf)))
           \<noteq> int (length (sort_key row_Antenna (mf_data mf))) - 1" by simp
  with load_metafits_Inr [OF ne, of cfg hdr lg]
  obtain tm where "snd (load_metafits mf hdr cfg lg) = Inr tm" by blast
  moreover have "fst (load_metafits mf hdr cfg lg) = lg"
    using ne assms by (subst load_metafits_cases) simp_all
  ultimately show ?thesis by (metis prod.collapse)
qed

text \<open>
  What lines 186 to 192 do with the flag column, which has one entry for each row of the
  table: when all entries but one are set, the run ends with SystemExit after an error is
  logged if \<open>run_simulation\<close> is false, and goes on to return \<open>meta\<close> after a
  warning is logged if it is true; when fewer entries are set, nothing is logged and
  \<open>meta\<close> is returned.
\<close>

lemma flag_column_all_but_one:
  assumes mt: "meta_times ext p = Inr (b0i, jdate, jd0)"
    and fs: "fs (cfg_input_path cfg, cfg_obs_id cfg @ ''.metafits'') = Some mf"
    and fl: "flags_are_0_or_1 mf"
  shows "(flagged_rows mf = int (length (mf_data mf)) - 1 \<and> \<not> cfg_run_simulation cfg \<longrightarrow>
            read_metafits ext fs ob hdr p cfg lg = (lg @ [Error AllTilesFlagged], Inl SystemExit))
       \<and> (flagged_rows mf = int (length (mf_data mf)) - 1 \<and> cfg_run_simulation cfg \<longrightarrow>
            (\<exists>m. read_metafits ext fs ob hdr p cfg lg = (lg @ [Warning AllTilesFlagged], Inr m)))
       \<and> (flagged_rows mf < int (length (mf_data mf)) - 1 \<longrightarrow>
            (\<exists>m. read_metafits ext fs ob hdr p cfg lg = (lg, Inr m)))"
proof (intro conjI impI)
  assume "flagged_rows mf = int (length (mf_data mf)) - 1 \<and> \<not> cfg_run_simulation cfg"
  then have "load_metafits mf hdr cfg lg = (lg @ [Error AllTilesFlagged], Inl SystemExit)"
    using fl by (simp add: load_metafits_exit)
  then show "read_metafits ext fs ob hdr p cfg lg = (lg @ [Error AllTilesFlagged], Inl SystemExit)"
    using mt fs by (intro read_metafits_raises) simp_all
next
  assume "flagged_rows mf = int (length (mf_data mf)) - 1 \<and> cfg_run_simulation cfg"
  then obtain tm where "load_metafits mf hdr cfg lg = (lg @ [Warning AllTilesFlagged], Inr tm)"
    using fl load_metafits_warn by blast
  then have "(case fs (cfg_input_path cfg, cfg_obs_id cfg @ ''.metafits'') of
            Some mf \<Rightarrow> load_metafits mf hdr cfg lg
          | None \<Rightarrow> header_meta ext ob hdr p b0i lg) = (lg @ [Warning AllTilesFlagged], Inr tm)"
    using fs by simp
  from read_metafits_returns [where fs = fs and cfg = cfg and hdr = hdr and lg = lg and ob = ob, OF mt this]
  show "\<exists>m. read_metafits ext fs ob hdr p cfg lg = (lg @ [Warning AllTilesFlagged], Inr m)" by blast
next
  assume "flagged_rows mf < int (length (mf_data mf)) - 1"
  then obtain tm where "load_metafits mf hdr cfg lg = (lg, Inr tm)"
    using fl load_metafits_quiet by blast
  then have "(case fs (cfg_input_path cfg, cfg_obs_id cfg @ ''.metafits'') of
            Some mf \<Rightarrow> load_metafits mf hdr cfg lg
          | None \<Rightarrow> header_meta ext ob hdr p b0i lg) = (lg, Inr tm)"
    using fs by simp
  from read_metafits_returns [where fs = fs and cfg = cfg and hdr = hdr and lg = lg and ob = ob, OF mt this]
  show "\<exists>m. read_metafits ext fs ob hdr p cfg lg = (lg, Inr m)" by blast
qed

text \<open>
  Claim C6 says that \<open>read_metafits\<close> ends the run when every tile but one is flagged
  and \<open>run_simulation\<close> is false. Lines 184 and 185 take the names and heights of the
  tiles from one row for each tile (\<open>single_i\<close>); line 186 takes the whole flag column,
  which has a row for each polarisation of each tile, and line 187 compares the sum of
  that column with its size less one. In the table below each of three tiles has two rows;
  tiles 1 and 2 are flagged in both and tile 3 in neither, so every tile but one is
  flagged. The sum is 4 and the size 6: \<open>read_metafits\<close> logs nothing and returns
  \<open>meta\<close>, with \<open>run_simulation\<close> false.
\<close>

theorem all_but_one_tile_flagged_not_detected:
  "tile_numbers (three_tile_metafits [1, 1, 1, 1, 0, 0]) = [1, 2, 3]
   \<and> filter (tile_flagged (three_tile_metafits [1, 1, 1, 1, 0, 0])) [1, 2, 3] = [1, 2]
   \<and> flagged_tiles (three_tile_metafits [1, 1, 1, 1, 0, 0]) = 3 - 1
   \<and> \<not> cfg_run_simulation sample_config
   \<and> (\<exists>m. read_metafits sample_externals (with_metafits (three_tile_metafits [1, 1, 1, 1, 0, 0]))
             sample_obs sample_header params_explicit sample_config [] = ([], Inr m)
          \<and> meta_tile_names m = [11, 12, 13])"
proof -
  let ?M = "three_tile_metafits [1, 1, 1, 1, 0, 0]"
  have t: "tile_numbers ?M = [1, 2, 3]"
    by (simp add: tile_numbers_def three_tile_metafits_def)
  have f: "filter (tile_flagged ?M) [1, 2, 3] = [1, 2]"
    by (simp add: tile_flagged_def three_tile_metafits_def)
  have n: "flagged_tiles ?M = 3 - 1"
    unfolding flagged_tiles_def t f by simp
  have s: "\<not> cfg_run_simulation sample_config" by (simp add: sample_config_def)
  have lm: "load_metafits ?M sample_header sample_config []
      = ([], Inr \<lparr>tm_tile_names = [11, 12, 13], tm_tile_height = [0, 0, 0],
           tm_tile_flag = [1, 1, 1, 1, 0, 0], tm_obsra = 0, tm_obsdec = - 27, tm_phasera = 116,
           tm_phasedec = - 27, tm_time_res = 2, tm_delays = Some [''0'', ''0'']\<rparr>)"
    by (simp add: load_metafits_def three_tile_metafits_def sample_header_def sample_config_def Let_def)
  have "(case with_metafits ?M (cfg_input_path sample_config, cfg_obs_id sample_config @ ''.metafits'') of
            Some mf \<Rightarrow> load_metafits mf sample_header sample_config []
          | None \<Rightarrow> header_meta sample_externals sample_obs sample_header params_explicit [1, 2] [])
        = ([], Inr \<lparr>tm_tile_names = [11, 12, 13], tm_tile_height = [0, 0, 0],
           tm_tile_flag = [1, 1, 1, 1, 0, 0], tm_obsra = 0, tm_obsdec = - 27, tm_phasera = 116,
           tm_phasedec = - 27, tm_time_res = 2, tm_delays = Some [''0'', ''0'']\<rparr>)"
    by (simp only: run_filesystem option.case lm)
  from read_metafits_returns [where fs = "with_metafits ?M" and cfg = sample_config
      and hdr = sample_header and lg = "[]" and ob = sample_obs, OF run_meta_times this]
  have "\<exists>m. read_metafits sample_externals (with_metafits ?M) sample_obs sample_header
               params_explicit sample_config [] = ([], Inr m)
            \<and> meta_tile_names m = [11, 12, 13]"
    by auto
  with t f n s show ?thesis by blast
qed

subsection \<open>Tile flags without a METAFITS file\<close>









subsection \<open>The projection at the zenith\<close>





end
